theory Spec2Isabelle
  imports Complex_Main "HOL-Library.Word" "HOL-Library.AList"
begin

unbundle bit_operations_syntax

section \<open>JavaScript values shared by both engines\<close>

text \<open>
  A JavaScript \<open>number\<close> as the point-record decoder sees it: a finite value, or one of the
  three non-finite values. Finite values are kept as exact reals (the two zeros are one
  value), so a decoded integer or IEEE bit pattern is the real it denotes.
\<close>

datatype number = Num real | NaN | Infinity | NegInfinity

text \<open>\<open>Number.isFinite\<close>.\<close>

fun isFinite :: "number \<Rightarrow> bool" where
  "isFinite (Num r) = True"
| "isFinite NaN = False"
| "isFinite Infinity = False"
| "isFinite NegInfinity = False"

text \<open>\<open>Math.min\<close> and \<open>Math.max\<close> of two arguments: NaN is contagious.\<close>

fun Math_min :: "number \<Rightarrow> number \<Rightarrow> number" where
  "Math_min NaN b = NaN"
| "Math_min a NaN = NaN"
| "Math_min NegInfinity b = NegInfinity"
| "Math_min a NegInfinity = NegInfinity"
| "Math_min Infinity b = b"
| "Math_min a Infinity = a"
| "Math_min (Num a) (Num b) = Num (min a b)"

fun Math_max :: "number \<Rightarrow> number \<Rightarrow> number" where
  "Math_max NaN b = NaN"
| "Math_max a NaN = NaN"
| "Math_max Infinity b = Infinity"
| "Math_max a Infinity = Infinity"
| "Math_max NegInfinity b = b"
| "Math_max a NegInfinity = a"
| "Math_max (Num a) (Num b) = Num (max a b)"

text \<open>The only exception the decoder can meet: a \<open>DataView\<close> read outside the view.\<close>

datatype js_error = RangeError

text \<open>
  \<open>normalizeFrame\<close> (the same function in pointcloud.ts and in the transform store):
  \<open>!frame\<close> holds for \<open>undefined\<close> and for the empty string; otherwise one leading
  \<open>/\<close> is dropped.
\<close>

fun normalizeFrame :: "string option \<Rightarrow> string option" where
  "normalizeFrame None = None"
| "normalizeFrame (Some []) = None"
| "normalizeFrame (Some (c # cs)) = (if c = CHR ''/'' then Some cs else Some (c # cs))"

record Header =
  frame_id :: "string option"

text \<open>\<open>header?.frame_id\<close>.\<close>

fun headerFrame :: "Header option \<Rightarrow> string option" where
  "headerFrame None = None"
| "headerFrame (Some h) = frame_id h"

text \<open>\<open>v ?? d\<close>.\<close>

fun orElse :: "'a option \<Rightarrow> 'a \<Rightarrow> 'a" where
  "orElse None d = d"
| "orElse (Some v) d = v"

section \<open>Point-record decoder (pointcloud.ts)\<close>

subsection \<open>DataView\<close>

text \<open>
  The view covers exactly the message bytes. Every getter raises \<open>RangeError\<close> when the
  element does not lie inside the view; otherwise it assembles the element's bytes in the
  requested byte order.
\<close>

type_synonym byte = "8 word"
type_synonym DataView = "byte list"

fun le_nat :: "byte list \<Rightarrow> nat" where
  "le_nat [] = 0"
| "le_nat (b # bs) = unat b + 256 * le_nat bs"

definition getRaw :: "DataView \<Rightarrow> nat \<Rightarrow> nat \<Rightarrow> bool \<Rightarrow> js_error + nat" where
  "getRaw view byteOffset elementSize littleEndian =
     (if byteOffset + elementSize > length view then Inl RangeError
      else let bs = take elementSize (drop byteOffset view)
           in Inr (le_nat (if littleEndian then bs else rev bs)))"

text \<open>Two's complement reading of an unsigned value of \<open>bits\<close> bits.\<close>

definition toSigned :: "nat \<Rightarrow> nat \<Rightarrow> int" where
  "toSigned bits v = (if v \<ge> 2 ^ (bits - 1) then int v - 2 ^ bits else int v)"

text \<open>IEEE 754 binary32 and binary64 bit patterns as the numbers they denote.\<close>

definition float32_of_bits :: "nat \<Rightarrow> number" where
  "float32_of_bits v =
     (let sign = v div 2 ^ 31; e = (v div 2 ^ 23) mod 256; m = v mod 2 ^ 23
      in if e = 255 then (if m = 0 then (if sign = 0 then Infinity else NegInfinity) else NaN)
         else Num ((if sign = 0 then 1 else - 1) *
                   (if e = 0 then real m / 2 ^ 149 else real (2 ^ 23 + m) * 2 ^ e / 2 ^ 150)))"

definition float64_of_bits :: "nat \<Rightarrow> number" where
  "float64_of_bits v =
     (let sign = v div 2 ^ 63; e = (v div 2 ^ 52) mod 2048; m = v mod 2 ^ 52
      in if e = 2047 then (if m = 0 then (if sign = 0 then Infinity else NegInfinity) else NaN)
         else Num ((if sign = 0 then 1 else - 1) *
                   (if e = 0 then real m / 2 ^ 1074 else real (2 ^ 52 + m) * 2 ^ e / 2 ^ 1075)))"

definition getUint8 :: "DataView \<Rightarrow> nat \<Rightarrow> js_error + number" where
  "getUint8 view byteOffset = map_sum id (\<lambda>v. Num (real v)) (getRaw view byteOffset 1 True)"

definition getInt8 :: "DataView \<Rightarrow> nat \<Rightarrow> js_error + number" where
  "getInt8 view byteOffset =
     map_sum id (\<lambda>v. Num (real_of_int (toSigned 8 v))) (getRaw view byteOffset 1 True)"

definition getUint16 :: "DataView \<Rightarrow> nat \<Rightarrow> bool \<Rightarrow> js_error + number" where
  "getUint16 view byteOffset littleEndian =
     map_sum id (\<lambda>v. Num (real v)) (getRaw view byteOffset 2 littleEndian)"

definition getInt16 :: "DataView \<Rightarrow> nat \<Rightarrow> bool \<Rightarrow> js_error + number" where
  "getInt16 view byteOffset littleEndian =
     map_sum id (\<lambda>v. Num (real_of_int (toSigned 16 v))) (getRaw view byteOffset 2 littleEndian)"

text \<open>
  \<open>getUint32\<close> yields an integer in \<open>[0, 2^32)\<close>; it is kept as a \<open>nat\<close> so that
  \<open>readColor\<close> can apply the 32-bit operators to it, and \<open>readNumeric\<close> wraps it in
  \<open>Num\<close>.
\<close>

definition getUint32 :: "DataView \<Rightarrow> nat \<Rightarrow> bool \<Rightarrow> js_error + nat" where
  "getUint32 view byteOffset littleEndian = getRaw view byteOffset 4 littleEndian"

definition getInt32 :: "DataView \<Rightarrow> nat \<Rightarrow> bool \<Rightarrow> js_error + number" where
  "getInt32 view byteOffset littleEndian =
     map_sum id (\<lambda>v. Num (real_of_int (toSigned 32 v))) (getRaw view byteOffset 4 littleEndian)"

definition getFloat32 :: "DataView \<Rightarrow> nat \<Rightarrow> bool \<Rightarrow> js_error + number" where
  "getFloat32 view byteOffset littleEndian =
     map_sum id float32_of_bits (getRaw view byteOffset 4 littleEndian)"

definition getFloat64 :: "DataView \<Rightarrow> nat \<Rightarrow> bool \<Rightarrow> js_error + number" where
  "getFloat64 view byteOffset littleEndian =
     map_sum id float64_of_bits (getRaw view byteOffset 8 littleEndian)"

subsection \<open>Messages\<close>

text \<open>
  \<open>height\<close>, \<open>width\<close>, \<open>point_step\<close>, field offsets and datatypes are the unsigned
  integers of a \<open>sensor_msgs/PointCloud2\<close> message, hence naturals; on them
  \<open>Number(w) || 0\<close> is \<open>w\<close>. The byte buffer is a \<open>Uint8Array\<close> (a \<open>number[]\<close> is
  converted to one before any read).
\<close>

record PointField =
  name :: string
  offset :: nat
  field_datatype :: nat
  count :: nat

record PointCloud2Message =
  header :: "Header option"
  height :: nat
  width :: nat
  fields' :: "PointField list"
  is_bigendian :: "bool option"
  point_step :: nat
  row_step :: nat
  data :: "byte list option"

record ParsedPointCloud =
  id' :: string
  frameId :: string
  positions :: "number list"
  colors :: "number list option"

definition INT8 :: nat where "INT8 = 1"
definition UINT8 :: nat where "UINT8 = 2"
definition INT16 :: nat where "INT16 = 3"
definition UINT16 :: nat where "UINT16 = 4"
definition INT32 :: nat where "INT32 = 5"
definition UINT32 :: nat where "UINT32 = 6"
definition FLOAT32 :: nat where "FLOAT32 = 7"
definition FLOAT64 :: nat where "FLOAT64 = 8"

lemmas PointFieldType_defs =
  INT8_def UINT8_def INT16_def UINT16_def INT32_def UINT32_def FLOAT32_def FLOAT64_def

definition DEFAULT_FRAME :: string where
  "DEFAULT_FRAME = ''map''"

definition DEFAULT_COLOR :: "number \<times> number \<times> number" where
  "DEFAULT_COLOR = (Num (2 / 10), Num (6 / 10), Num 1)"

subsection \<open>readNumeric and readColor\<close>

definition readNumeric :: "DataView \<Rightarrow> nat \<Rightarrow> nat \<Rightarrow> bool \<Rightarrow> js_error + number" where
  "readNumeric view byteOffset dt littleEndian =
     (if dt = FLOAT32 then getFloat32 view byteOffset littleEndian
      else if dt = FLOAT64 then getFloat64 view byteOffset littleEndian
      else if dt = UINT8 then getUint8 view byteOffset
      else if dt = INT8 then getInt8 view byteOffset
      else if dt = UINT16 then getUint16 view byteOffset littleEndian
      else if dt = INT16 then getInt16 view byteOffset littleEndian
      else if dt = UINT32 then map_sum id (\<lambda>v. Num (real v)) (getUint32 view byteOffset littleEndian)
      else if dt = INT32 then getInt32 view byteOffset littleEndian
      else Inr NaN)"

text \<open>
  \<open>(value >> s) & 0xff\<close>: both operators work on the 32-bit two's complement image of
  their left operand (\<open>ToInt32\<close>), \<open>>>\<close> shifts arithmetically, and the result is read
  back as a signed 32-bit integer.
\<close>

definition ToInt32 :: "nat \<Rightarrow> 32 word" where
  "ToInt32 v = word_of_nat v"

definition channel :: "nat \<Rightarrow> nat \<Rightarrow> number" where
  "channel v s = Num (real_of_int (sint (signed_drop_bit s (ToInt32 v) AND 0xff)) / 255)"

definition readColor ::
  "DataView \<Rightarrow> nat \<Rightarrow> nat \<Rightarrow> bool \<Rightarrow> js_error + (number \<times> number \<times> number)" where
  "readColor view byteOffset dt littleEndian =
     (if dt = FLOAT32 \<or> dt = UINT32 \<or> dt = INT32 then
        (case getUint32 view byteOffset littleEndian of
           Inl e \<Rightarrow> Inl e
         | Inr v \<Rightarrow> Inr (channel v 16, channel v 8, channel v 0))
      else if dt = UINT8 \<or> dt = INT8 then
        (case getRaw view byteOffset 1 True of
           Inl e \<Rightarrow> Inl e
         | Inr v \<Rightarrow> (let intensity = Num (real v / 255) in Inr (intensity, intensity, intensity)))
      else if dt = FLOAT64 then
        (case getFloat64 view byteOffset littleEndian of
           Inl e \<Rightarrow> Inl e
         | Inr intensity \<Rightarrow>
             (let normalized = Math_max (Num 0) (Math_min (Num 1) intensity)
              in Inr (normalized, normalized, normalized)))
      else Inr DEFAULT_COLOR)"

subsection \<open>parsePointCloud2\<close>

text \<open>
  The state of the record loop: the \<open>positions\<close> array, the \<open>colors\<close> array when a
  color field exists, and \<open>validPoints\<close>. Both arrays are \<open>Float32Array\<close>s: storing a
  number rounds it to single precision, which is the parameter \<open>fround\<close>.
\<close>

type_synonym loop_state = "number list \<times> number list option \<times> nat"

text \<open>One iteration of the loop over records, for record index \<open>i\<close>.\<close>

definition decodeRecord ::
  "(number \<Rightarrow> number) \<Rightarrow> DataView \<Rightarrow> nat \<Rightarrow> bool \<Rightarrow> PointField \<Rightarrow> PointField \<Rightarrow> PointField \<Rightarrow>
   PointField option \<Rightarrow> nat \<Rightarrow> loop_state \<Rightarrow> js_error + loop_state" where
  "decodeRecord fround view step littleEndian xField yField zField colorField i st =
     (case st of (pos, cols, validPoints) \<Rightarrow>
      let base = i * step in
      case readNumeric view (base + offset xField) (field_datatype xField) littleEndian of
        Inl e \<Rightarrow> Inl e
      | Inr x \<Rightarrow>
      case readNumeric view (base + offset yField) (field_datatype yField) littleEndian of
        Inl e \<Rightarrow> Inl e
      | Inr y \<Rightarrow>
      case readNumeric view (base + offset zField) (field_datatype zField) littleEndian of
        Inl e \<Rightarrow> Inl e
      | Inr z \<Rightarrow>
      if \<not> isFinite x \<or> \<not> isFinite y \<or> \<not> isFinite z then Inr (pos, cols, validPoints)
      else
        let pos = pos[validPoints * 3 := fround x,
                                  validPoints * 3 + 1 := fround y,
                                  validPoints * 3 + 2 := fround z]
        in case (cols, colorField) of
             (Some cs, Some cf) \<Rightarrow>
               (case readColor view (base + offset cf) (field_datatype cf) littleEndian of
                  Inl e \<Rightarrow> Inl e
                | Inr (r, g, b) \<Rightarrow>
                    Inr (pos,
                         Some (cs[validPoints * 3 := fround r,
                                  validPoints * 3 + 1 := fround g,
                                  validPoints * 3 + 2 := fround b]),
                         validPoints + 1))
           | _ \<Rightarrow> Inr (pos, cols, validPoints + 1))"

text \<open>\<open>for (let i = 0; i < pointCount; i += 1)\<close>, stopped by the first exception.\<close>

function parseLoop ::
  "(nat \<Rightarrow> loop_state \<Rightarrow> js_error + loop_state) \<Rightarrow> nat \<Rightarrow> nat \<Rightarrow> loop_state \<Rightarrow> js_error + loop_state" where
  "parseLoop body pointCount i st =
     (if i < pointCount then
        (case body i st of Inl e \<Rightarrow> Inl e | Inr st' \<Rightarrow> parseLoop body pointCount (i + 1) st')
      else Inr st)"
  by pat_completeness auto
termination
  by (relation "measure (\<lambda>(body, pointCount, i, st). pointCount - i)") auto

declare parseLoop.simps [simp del]

text \<open>\<open>message.is_bigendian ? false : true\<close>.\<close>

definition littleEndianOf :: "PointCloud2Message \<Rightarrow> bool" where
  "littleEndianOf message = (case is_bigendian message of Some True \<Rightarrow> False | _ \<Rightarrow> True)"

definition isColorField :: "PointField \<Rightarrow> bool" where
  "isColorField field = (name field = ''rgb'' \<or> name field = ''rgba'' \<or> name field = ''intensity'')"

text \<open>The result is \<open>Inl\<close> for an exception, \<open>Inr None\<close> for \<open>undefined\<close>.\<close>

definition parsePointCloud2 ::
  "(number \<Rightarrow> number) \<Rightarrow> string \<Rightarrow> PointCloud2Message \<Rightarrow> js_error + ParsedPointCloud option" where
  "parsePointCloud2 fround topic message =
     (let totalPoints = width message * height message in
      case data message of
        None \<Rightarrow> Inr None
      | Some bytes \<Rightarrow>
      if totalPoints \<le> 0 then Inr None
      else
        let pointCount = totalPoints in
        if length bytes < point_step message * pointCount then Inr None
        else
          case (find (\<lambda>field. name field = ''x'') (fields' message),
                find (\<lambda>field. name field = ''y'') (fields' message),
                find (\<lambda>field. name field = ''z'') (fields' message)) of
            (Some xField, Some yField, Some zField) \<Rightarrow>
              (let colorField = find isColorField (fields' message);
                   pos = replicate (pointCount * 3) (Num 0);
                   cols = (case colorField of
                               None \<Rightarrow> None
                             | Some cf \<Rightarrow> Some (replicate (pointCount * 3) (Num 0)));
                   step = point_step message;
                   littleEndian = littleEndianOf message
               in case parseLoop (decodeRecord fround bytes step littleEndian xField yField zField colorField)
                         pointCount 0 (pos, cols, 0) of
                    Inl e \<Rightarrow> Inl e
                  | Inr (pos, cols, validPoints) \<Rightarrow>
                      if validPoints = 0 then Inr None
                      else
                        let trimmedPositions =
                              (if validPoints * 3 = length pos then pos
                               else take (validPoints * 3) pos);
                            trimmedColors =
                              (case cols of
                                 Some cs \<Rightarrow>
                                   if validPoints * 3 \<noteq> length cs then Some (take (validPoints * 3) cs)
                                   else Some cs
                               | None \<Rightarrow> None)
                        in Inr (Some \<lparr>id' = topic,
                                     frameId = orElse (normalizeFrame (headerFrame (header message)))
                                                 DEFAULT_FRAME,
                                     positions = trimmedPositions,
                                     colors = trimmedColors\<rparr>))
          | _ \<Rightarrow> Inr None)"

section \<open>Transform graph store (class TfStore)\<close>

subsection \<open>The three.js operations the store calls\<close>

text \<open>
  \<open>Matrix4\<close>, \<open>Quaternion\<close> and \<open>Vector3\<close> come from the three.js library. The store
  only calls them; it never looks inside a matrix except through \<open>elements\<close>. They are
  therefore parameters of the model: \<open>'m\<close> is the type of matrices, \<open>'n\<close> the type of
  the numbers carried by transform messages, and a value of this record supplies
  \<^item> \<open>lit0\<close>, \<open>lit1\<close>: the literals \<open>0\<close> and \<open>1\<close>;
  \<^item> \<open>strictNeq a b\<close>: \<open>a !== b\<close> on numbers;
  \<^item> \<open>IDENTITY\<close>: \<open>new Matrix4()\<close>;
  \<^item> \<open>multiply a b\<close>: \<open>a.clone().multiply(b)\<close>;
  \<^item> \<open>invert a\<close>: \<open>a.clone().invert()\<close>;
  \<^item> \<open>elements a i\<close>: \<open>a.elements[i]\<close>;
  \<^item> \<open>compose t q s\<close>: \<open>new Matrix4().compose(t, q, s)\<close>;
  \<^item> \<open>normalize q\<close>: \<open>q.normalize()\<close>.
  Every matrix the store keeps or returns is a fresh clone, so matrices are plain values.
\<close>

record ('n, 'm) three =
  lit0 :: 'n
  lit1 :: 'n
  strictNeq :: "'n \<Rightarrow> 'n \<Rightarrow> bool"
  IDENTITY :: 'm
  multiply :: "'m \<Rightarrow> 'm \<Rightarrow> 'm"
  invert :: "'m \<Rightarrow> 'm"
  elements :: "'m \<Rightarrow> nat \<Rightarrow> 'n"
  compose :: "'n \<times> 'n \<times> 'n \<Rightarrow> 'n \<times> 'n \<times> 'n \<times> 'n \<Rightarrow> 'n \<times> 'n \<times> 'n \<Rightarrow> 'm"
  normalize :: "'n \<times> 'n \<times> 'n \<times> 'n \<Rightarrow> 'n \<times> 'n \<times> 'n \<times> 'n"

subsection \<open>Messages and stored edges\<close>

text \<open>The optional \<open>x\<close>, \<open>y\<close>, \<open>z\<close> (and \<open>w\<close>) of a translation and a rotation.\<close>

datatype 'n Vector3Msg = Vector3Msg "'n option" "'n option" "'n option"

datatype 'n QuaternionMsg = QuaternionMsg "'n option" "'n option" "'n option" "'n option"

record 'n Transform =
  translation :: "'n Vector3Msg option"
  rotation :: "'n QuaternionMsg option"

record 'n TransformStamped =
  header' :: "Header option"
  child_frame_id :: "string option"
  transform :: "'n Transform option"

record 'n TfMessage =
  transforms :: "'n TransformStamped list option"

record 'm FrameTransform =
  parent :: "string option"
  matrix :: 'm

record 'm FramePose =
  pose_frameId :: string
  pose_matrix :: 'm

text \<open>
  A JavaScript \<open>Map\<close> keeps its keys in insertion order: it is an association list,
  \<open>get\<close> is \<open>map_of\<close>, and \<open>set\<close> is \<open>AList.update\<close> (overwrite in place, or append).
  A \<open>Set\<close> of strings that is iterated is a list without duplicates; \<open>add\<close> appends.
\<close>

type_synonym 'm edges = "(string \<times> 'm FrameTransform) list"

record 'm TfStore =
  dynamicTransforms :: "'m edges"
  staticTransforms :: "'m edges"

record 'm PoseData =
  frames :: "'m FramePose list"
  matrixMap :: "(string \<times> 'm) list"

definition set_add :: "string list \<Rightarrow> string \<Rightarrow> string list" where
  "set_add names n = (if n \<in> set names then names else names @ [n])"

text \<open>Truthiness of a \<open>string | undefined\<close>.\<close>

fun truthy :: "string option \<Rightarrow> bool" where
  "truthy None = False"
| "truthy (Some s) = (s \<noteq> [])"

subsection \<open>composeMatrix and matricesDiffer\<close>

definition composeMatrix :: "('n, 'm) three \<Rightarrow> 'n TransformStamped \<Rightarrow> 'm" where
  "composeMatrix ops t =
     (let tr = (case transform t of None \<Rightarrow> None | Some tf \<Rightarrow> translation tf);
          rot = (case transform t of None \<Rightarrow> None | Some tf \<Rightarrow> rotation tf);
          translationV =
            (case tr of
               None \<Rightarrow> (lit0 ops, lit0 ops, lit0 ops)
             | Some (Vector3Msg x y z) \<Rightarrow>
                 (orElse x (lit0 ops), orElse y (lit0 ops), orElse z (lit0 ops)));
          rotationQ =
            normalize ops
              (case rot of
                 None \<Rightarrow> (lit0 ops, lit0 ops, lit0 ops, lit1 ops)
               | Some (QuaternionMsg x y z w) \<Rightarrow>
                   (orElse x (lit0 ops), orElse y (lit0 ops), orElse z (lit0 ops),
                    orElse w (lit1 ops)))
      in compose ops translationV rotationQ (lit1 ops, lit1 ops, lit1 ops))"

definition matricesDiffer :: "('n, 'm) three \<Rightarrow> 'm \<Rightarrow> 'm \<Rightarrow> bool" where
  "matricesDiffer ops a b =
     list_ex (\<lambda>i. strictNeq ops (elements ops a i) (elements ops b i)) [0..<16]"

subsection \<open>update, resetDynamic, clearAll\<close>

text \<open>The body of the loop over \<open>message.transforms\<close>, on the pair (store, updated).\<close>

definition updateEntry ::
  "('n, 'm) three \<Rightarrow> 'm edges \<times> bool \<Rightarrow> 'n TransformStamped \<Rightarrow> 'm edges \<times> bool" where
  "updateEntry ops acc t =
     (case acc of (store, updated) \<Rightarrow>
      case normalizeFrame (child_frame_id t) of
        None \<Rightarrow> (store, updated)
      | Some child \<Rightarrow>
          if child = [] then (store, updated)
          else
            let p = normalizeFrame (headerFrame (header' t));
                m = composeMatrix ops t;
                previous = map_of store child
            in if (case previous of
                     None \<Rightarrow> True
                   | Some prev \<Rightarrow> p \<noteq> parent prev \<or> matricesDiffer ops (matrix prev) m)
               then (AList.update child \<lparr>parent = p, matrix = m\<rparr> store, True)
               else (store, updated))"

text \<open>\<open>update\<close> returns the store after the call together with \<open>updated\<close>.\<close>

definition update ::
  "('n, 'm) three \<Rightarrow> 'm TfStore \<Rightarrow> 'n TfMessage \<Rightarrow> bool \<Rightarrow> 'm TfStore \<times> bool" where
  "update ops st message isStatic =
     (let store = (if isStatic then staticTransforms st else dynamicTransforms st);
          r = foldl (updateEntry ops) (store, False) (orElse (transforms message) [])
      in ((if isStatic then st\<lparr>staticTransforms := fst r\<rparr> else st\<lparr>dynamicTransforms := fst r\<rparr>),
          snd r))"

definition resetDynamic :: "'m TfStore \<Rightarrow> 'm TfStore" where
  "resetDynamic st = st\<lparr>dynamicTransforms := []\<rparr>"

definition clearAll :: "'m TfStore \<Rightarrow> 'm TfStore" where
  "clearAll st = st\<lparr>dynamicTransforms := [], staticTransforms := []\<rparr>"

subsection \<open>resolveWorldMatrix and buildPoseData\<close>

text \<open>\<open>this.dynamicTransforms.get(frame) ?? this.staticTransforms.get(frame)\<close>.\<close>

definition lookupTransform :: "'m TfStore \<Rightarrow> string \<Rightarrow> 'm FrameTransform option" where
  "lookupTransform st frame =
     (case map_of (dynamicTransforms st) frame of
        Some t \<Rightarrow> Some t
      | None \<Rightarrow> map_of (staticTransforms st) frame)"

definition storeKeys :: "'m TfStore \<Rightarrow> string set" where
  "storeKeys st = set (map fst (dynamicTransforms st)) \<union> set (map fst (staticTransforms st))"

text \<open>
  The cache is a \<open>Map\<close> used only through \<open>has\<close>, \<open>get\<close> and \<open>set\<close>: a partial function.
  The function returns its result together with the cache after the call. The set
  \<open>stack\<close> is handed down only: the source adds \<open>frame\<close> before the recursive call and
  deletes it afterwards, \<open>frame\<close> was not in it before (that case has returned), and
  nothing reads the set after the recursive call.
\<close>

function resolveWorldMatrix ::
  "('n, 'm) three \<Rightarrow> 'm TfStore \<Rightarrow> string \<Rightarrow> (string \<rightharpoonup> 'm) \<Rightarrow> string set \<Rightarrow>
   'm option \<times> (string \<rightharpoonup> 'm)" where
  "resolveWorldMatrix ops st frame cache stack =
     (if cache frame \<noteq> None then (cache frame, cache)
      else if frame \<in> stack then (Some (IDENTITY ops), cache)
      else
        case lookupTransform st frame of
          None \<Rightarrow> (let cache1 = cache(frame \<mapsto> IDENTITY ops) in (cache1 frame, cache1))
        | Some t \<Rightarrow>
            (let r = (case parent t of
                        None \<Rightarrow> (IDENTITY ops, cache)
                      | Some p \<Rightarrow>
                          if p \<noteq> [] \<and> p \<noteq> frame
                          then (case resolveWorldMatrix ops st p cache (insert frame stack) of
                                  (res, cache1) \<Rightarrow> (orElse res (IDENTITY ops), cache1))
                          else (IDENTITY ops, cache));
                 worldMatrix = multiply ops (fst r) (matrix t)
             in (Some worldMatrix, (snd r)(frame \<mapsto> worldMatrix))))"
  by pat_completeness auto


lemma lookupTransform_storeKeys:
  "lookupTransform st frame = Some t \<Longrightarrow> frame \<in> storeKeys st"
  by (auto simp: lookupTransform_def storeKeys_def split: option.splits dest!: map_of_SomeD
           intro: rev_image_eqI)

lemma card_storeKeys_decreases:
  assumes "frame \<in> storeKeys st" and "frame \<notin> stack"
  shows "card (storeKeys st - insert frame stack) < card (storeKeys st - stack)"
proof -
  have "finite (storeKeys st - stack)"
    by (simp add: storeKeys_def)
  moreover have "storeKeys st - insert frame stack \<subset> storeKeys st - stack"
    using assms by auto
  ultimately show ?thesis
    by (rule psubset_card_mono)
qed

termination resolveWorldMatrix
  by (relation "measure (\<lambda>(ops, st, frame, cache, stack). card (storeKeys st - stack))")
     (auto intro: card_storeKeys_decreases lookupTransform_storeKeys)


declare resolveWorldMatrix.simps [simp del]

text \<open>
  The frame names \<open>buildPoseData\<close> collects: the keys of both maps, then the truthy
  parents of both maps, then the fixed frame if it is truthy, in insertion order.
\<close>

definition addParent :: "string list \<Rightarrow> 'm FrameTransform \<Rightarrow> string list" where
  "addParent names t =
     (case parent t of
        None \<Rightarrow> names
      | Some p \<Rightarrow> if p \<noteq> [] then set_add names p else names)"

definition collectFrameNames :: "'m TfStore \<Rightarrow> string option \<Rightarrow> string list" where
  "collectFrameNames st fixedFrame =
     (let names1 = foldl set_add [] (map fst (dynamicTransforms st));
          names2 = foldl set_add names1 (map fst (staticTransforms st));
          names3 = foldl addParent names2 (map snd (dynamicTransforms st));
          names4 = foldl addParent names3 (map snd (staticTransforms st))
      in case fixedFrame of
           None \<Rightarrow> names4
         | Some f \<Rightarrow> if f \<noteq> [] then set_add names4 f else names4)"

text \<open>
  The body of \<open>frameNames.forEach\<close>, on the triple (\<open>frames\<close>, \<open>matrixMap\<close>,
  \<open>worldCache\<close>); every call of \<open>resolveWorldMatrix\<close> gets a new empty \<open>stack\<close>.
\<close>

definition poseStep ::
  "('n, 'm) three \<Rightarrow> 'm TfStore \<Rightarrow> string option \<Rightarrow> 'm \<Rightarrow>
   'm FramePose list \<times> (string \<times> 'm) list \<times> (string \<rightharpoonup> 'm) \<Rightarrow> string \<Rightarrow>
   'm FramePose list \<times> (string \<times> 'm) list \<times> (string \<rightharpoonup> 'm)" where
  "poseStep ops st fixedFrame fixedInverse acc frameName =
     (case acc of (poses, lookup, worldCache) \<Rightarrow>
      if frameName = [] then (poses, lookup, worldCache)
      else
        case resolveWorldMatrix ops st frameName worldCache {} of
          (res, worldCache1) \<Rightarrow>
            let world = orElse res (IDENTITY ops);
                relative = (if truthy fixedFrame then multiply ops fixedInverse world else world)
            in (poses @ [\<lparr>pose_frameId = frameName, pose_matrix = relative\<rparr>],
                AList.update frameName relative lookup,
                worldCache1))"

text \<open>
  \<open>fixedWorld\<close>, computed once before the loop, together with the cache it leaves:
  \<open>fixedFrame ? this.resolveWorldMatrix(fixedFrame, worldCache, new Set()) ?? IDENTITY : IDENTITY\<close>.
\<close>

definition resolveFixed ::
  "('n, 'm) three \<Rightarrow> 'm TfStore \<Rightarrow> string option \<Rightarrow> 'm \<times> (string \<rightharpoonup> 'm)" where
  "resolveFixed ops st fixedFrame =
     (case fixedFrame of
        None \<Rightarrow> (IDENTITY ops, Map.empty)
      | Some f \<Rightarrow>
          if f \<noteq> []
          then (case resolveWorldMatrix ops st f Map.empty {} of
                  (res, worldCache) \<Rightarrow> (orElse res (IDENTITY ops), worldCache))
          else (IDENTITY ops, Map.empty))"

definition buildPoseData :: "('n, 'm) three \<Rightarrow> 'm TfStore \<Rightarrow> string option \<Rightarrow> 'm PoseData" where
  "buildPoseData ops st fixedFrame =
     (let frameNames = collectFrameNames st fixedFrame;
          fixedResolved = resolveFixed ops st fixedFrame;
          fixedInverse = invert ops (fst fixedResolved);
          out = foldl (poseStep ops st fixedFrame fixedInverse) ([], [], snd fixedResolved) frameNames
      in \<lparr>frames = fst out, matrixMap = fst (snd out)\<rparr>)"

subsection \<open>The world matrix and the relative matrix, as the specification describes them\<close>







subsection \<open>The three.js operations over the reals\<close>

text \<open>
  To run the store on concrete transforms, the operations of three.js are instantiated
  with exact real arithmetic: a \<open>Matrix4\<close> is its sixteen \<open>elements\<close> in column-major
  order (element \<open>r + 4 * c\<close> is row \<open>r\<close>, column \<open>c\<close>), \<open>multiply\<close> is the matrix
  product, \<open>invert\<close> is the adjugate over the determinant, or the zero matrix when the
  determinant is zero, \<open>compose\<close> builds the matrix of a translation, a rotation
  quaternion and a scale, and \<open>normalize\<close> divides a quaternion by its length, or
  yields \<open>(0, 0, 0, 1)\<close> when the length is zero. Rounding, NaN and the infinities
  of JavaScript numbers are outside this instance.
\<close>

datatype Mat4 = Mat4 real real real real real real real real real real real real real real real real

definition mat_IDENTITY :: Mat4 where
  "mat_IDENTITY = Mat4 1 0 0 0  0 1 0 0  0 0 1 0  0 0 0 1"

definition mat_elements :: "Mat4 \<Rightarrow> nat \<Rightarrow> real" where
  "mat_elements m i =
     (case m of Mat4 n0 n1 n2 n3 n4 n5 n6 n7 n8 n9 n10 n11 n12 n13 n14 n15 \<Rightarrow>
      if i < 16 then [n0, n1, n2, n3, n4, n5, n6, n7, n8, n9, n10, n11, n12, n13, n14, n15] ! i
      else 0)"

definition mat_multiply :: "Mat4 \<Rightarrow> Mat4 \<Rightarrow> Mat4" where
  "mat_multiply a b =
     (case a of Mat4 a0 a1 a2 a3 a4 a5 a6 a7 a8 a9 a10 a11 a12 a13 a14 a15 \<Rightarrow>
      case b of Mat4 b0 b1 b2 b3 b4 b5 b6 b7 b8 b9 b10 b11 b12 b13 b14 b15 \<Rightarrow>
      Mat4
       (a0 * b0 + a4 * b1 + a8 * b2 + a12 * b3)
       (a1 * b0 + a5 * b1 + a9 * b2 + a13 * b3)
       (a2 * b0 + a6 * b1 + a10 * b2 + a14 * b3)
       (a3 * b0 + a7 * b1 + a11 * b2 + a15 * b3)
       (a0 * b4 + a4 * b5 + a8 * b6 + a12 * b7)
       (a1 * b4 + a5 * b5 + a9 * b6 + a13 * b7)
       (a2 * b4 + a6 * b5 + a10 * b6 + a14 * b7)
       (a3 * b4 + a7 * b5 + a11 * b6 + a15 * b7)
       (a0 * b8 + a4 * b9 + a8 * b10 + a12 * b11)
       (a1 * b8 + a5 * b9 + a9 * b10 + a13 * b11)
       (a2 * b8 + a6 * b9 + a10 * b10 + a14 * b11)
       (a3 * b8 + a7 * b9 + a11 * b10 + a15 * b11)
       (a0 * b12 + a4 * b13 + a8 * b14 + a12 * b15)
       (a1 * b12 + a5 * b13 + a9 * b14 + a13 * b15)
       (a2 * b12 + a6 * b13 + a10 * b14 + a14 * b15)
       (a3 * b12 + a7 * b13 + a11 * b14 + a15 * b15))"

definition det3 :: "real \<Rightarrow> real \<Rightarrow> real \<Rightarrow> real \<Rightarrow> real \<Rightarrow> real \<Rightarrow> real \<Rightarrow> real \<Rightarrow> real \<Rightarrow> real" where
  "det3 a b c d e f g h i = a * (e * i - f * h) - b * (d * i - f * g) + c * (d * h - e * g)"

definition mat_determinant :: "Mat4 \<Rightarrow> real" where
  "mat_determinant m =
     (case m of Mat4 n0 n1 n2 n3 n4 n5 n6 n7 n8 n9 n10 n11 n12 n13 n14 n15 \<Rightarrow>
     n0 * (det3 n5 n9 n13 n6 n10 n14 n7 n11 n15) +
     n4 * (- det3 n1 n9 n13 n2 n10 n14 n3 n11 n15) +
     n8 * (det3 n1 n5 n13 n2 n6 n14 n3 n7 n15) +
     n12 * (- det3 n1 n5 n9 n2 n6 n10 n3 n7 n11))"

definition mat_adjugate_scaled :: "real \<Rightarrow> Mat4 \<Rightarrow> Mat4" where
  "mat_adjugate_scaled d m =
     (case m of Mat4 n0 n1 n2 n3 n4 n5 n6 n7 n8 n9 n10 n11 n12 n13 n14 n15 \<Rightarrow>
      Mat4
       ((det3 n5 n9 n13 n6 n10 n14 n7 n11 n15) * (1 / d))
       ((- det3 n1 n9 n13 n2 n10 n14 n3 n11 n15) * (1 / d))
       ((det3 n1 n5 n13 n2 n6 n14 n3 n7 n15) * (1 / d))
       ((- det3 n1 n5 n9 n2 n6 n10 n3 n7 n11) * (1 / d))
       ((- det3 n4 n8 n12 n6 n10 n14 n7 n11 n15) * (1 / d))
       ((det3 n0 n8 n12 n2 n10 n14 n3 n11 n15) * (1 / d))
       ((- det3 n0 n4 n12 n2 n6 n14 n3 n7 n15) * (1 / d))
       ((det3 n0 n4 n8 n2 n6 n10 n3 n7 n11) * (1 / d))
       ((det3 n4 n8 n12 n5 n9 n13 n7 n11 n15) * (1 / d))
       ((- det3 n0 n8 n12 n1 n9 n13 n3 n11 n15) * (1 / d))
       ((det3 n0 n4 n12 n1 n5 n13 n3 n7 n15) * (1 / d))
       ((- det3 n0 n4 n8 n1 n5 n9 n3 n7 n11) * (1 / d))
       ((- det3 n4 n8 n12 n5 n9 n13 n6 n10 n14) * (1 / d))
       ((det3 n0 n8 n12 n1 n9 n13 n2 n10 n14) * (1 / d))
       ((- det3 n0 n4 n12 n1 n5 n13 n2 n6 n14) * (1 / d))
       ((det3 n0 n4 n8 n1 n5 n9 n2 n6 n10) * (1 / d)))"

definition mat_invert :: "Mat4 \<Rightarrow> Mat4" where
  "mat_invert m =
     (let d = mat_determinant m
      in if d = 0 then Mat4 0 0 0 0  0 0 0 0  0 0 0 0  0 0 0 0 else mat_adjugate_scaled d m)"

definition mat_compose ::
  "real \<times> real \<times> real \<Rightarrow> real \<times> real \<times> real \<times> real \<Rightarrow> real \<times> real \<times> real \<Rightarrow> Mat4" where
  "mat_compose position quaternion scale =
     (case position of (px, py, pz) \<Rightarrow>
      case quaternion of (x, y, z, w) \<Rightarrow>
      case scale of (sx, sy, sz) \<Rightarrow>
      let x2 = x + x; y2 = y + y; z2 = z + z;
          xx = x * x2; xy = x * y2; xz = x * z2;
          yy = y * y2; yz = y * z2; zz = z * z2;
          wx = w * x2; wy = w * y2; wz = w * z2
      in Mat4 ((1 - (yy + zz)) * sx) ((xy + wz) * sx) ((xz - wy) * sx) 0
              ((xy - wz) * sy) ((1 - (xx + zz)) * sy) ((yz + wx) * sy) 0
              ((xz + wy) * sz) ((yz - wx) * sz) ((1 - (xx + yy)) * sz) 0
              px py pz 1)"

definition quat_normalize :: "real \<times> real \<times> real \<times> real \<Rightarrow> real \<times> real \<times> real \<times> real" where
  "quat_normalize q =
     (case q of (x, y, z, w) \<Rightarrow>
      let l = sqrt (x * x + y * y + z * z + w * w)
      in if l = 0 then (0, 0, 0, 1)
         else (x * (1 / l), y * (1 / l), z * (1 / l), w * (1 / l)))"

definition three_real :: "(real, Mat4) three" where
  "three_real = \<lparr>lit0 = 0, lit1 = 1, strictNeq = (\<lambda>a b. a \<noteq> b),
     IDENTITY = mat_IDENTITY, multiply = mat_multiply, invert = mat_invert,
     elements = mat_elements, compose = mat_compose, normalize = quat_normalize\<rparr>"

subsection \<open>The three.js operations over JavaScript numbers\<close>

text \<open>
  The same operations over the type \<open>number\<close>, to run the store on transforms that
  carry NaN. Arithmetic follows IEEE 754 on the non-finite values: NaN is contagious,
  \<open>0 * Infinity\<close> and \<open>Infinity - Infinity\<close> are NaN, a non-zero finite value over zero
  is an infinity. On finite values it is exact (no rounding, no overflow, one zero).
  \<open>a !== b\<close> holds when either side is NaN.
\<close>

fun js_neg :: "number \<Rightarrow> number" where
  "js_neg (Num a) = Num (- a)"
| "js_neg NaN = NaN"
| "js_neg Infinity = NegInfinity"
| "js_neg NegInfinity = Infinity"

fun js_add :: "number \<Rightarrow> number \<Rightarrow> number" where
  "js_add NaN b = NaN"
| "js_add a NaN = NaN"
| "js_add (Num a) (Num b) = Num (a + b)"
| "js_add Infinity NegInfinity = NaN"
| "js_add NegInfinity Infinity = NaN"
| "js_add Infinity b = Infinity"
| "js_add a Infinity = Infinity"
| "js_add NegInfinity b = NegInfinity"
| "js_add a NegInfinity = NegInfinity"

fun js_positive :: "number \<Rightarrow> bool" where
  "js_positive (Num a) = (0 \<le> a)"
| "js_positive Infinity = True"
| "js_positive NegInfinity = False"
| "js_positive NaN = False"

definition js_infinity :: "bool \<Rightarrow> number" where
  "js_infinity positive = (if positive then Infinity else NegInfinity)"

fun js_mul :: "number \<Rightarrow> number \<Rightarrow> number" where
  "js_mul NaN b = NaN"
| "js_mul a NaN = NaN"
| "js_mul (Num a) (Num b) = Num (a * b)"
| "js_mul a b = (if a = Num 0 \<or> b = Num 0 then NaN else js_infinity (js_positive a = js_positive b))"

fun js_div :: "number \<Rightarrow> number \<Rightarrow> number" where
  "js_div NaN b = NaN"
| "js_div a NaN = NaN"
| "js_div (Num a) (Num b) =
     (if b \<noteq> 0 then Num (a / b) else if a = 0 then NaN else js_infinity (0 < a))"
| "js_div (Num a) b = Num 0"
| "js_div a (Num b) = js_infinity (js_positive a = (0 \<le> b))"
| "js_div a b = NaN"

text \<open>\<open>Math.sqrt\<close>.\<close>

fun Math_sqrt :: "number \<Rightarrow> number" where
  "Math_sqrt (Num a) = (if a < 0 then NaN else Num (sqrt a))"
| "Math_sqrt NaN = NaN"
| "Math_sqrt Infinity = Infinity"
| "Math_sqrt NegInfinity = NaN"

definition js_strictNeq :: "number \<Rightarrow> number \<Rightarrow> bool" where
  "js_strictNeq a b = (a = NaN \<or> b = NaN \<or> a \<noteq> b)"

text \<open>The literals and the operators \<open>+\<close>, \<open>-\<close>, \<open>*\<close>, \<open>/\<close> on \<open>number\<close>.\<close>

instantiation number :: "{zero, one, plus, minus, times, inverse}"
begin
definition zero_number_def: "0 = Num 0"
definition one_number_def: "1 = Num 1"
definition plus_number_def: "a + b = js_add a b"
definition minus_number_def: "a - b = js_add a (js_neg b)"
definition times_number_def: "a * b = js_mul a b"
definition divide_number_def: "a div b = js_div a b"
definition inverse_number_def: "inverse a = js_div (Num 1) a"
instance ..
end

text \<open>
  \<open>Matrix4\<close> with its sixteen \<open>elements\<close> in column-major order, named as three.js
  names them (\<open>n21\<close> is row 2, column 1). \<open>multiply\<close>, \<open>invert\<close>, \<open>compose\<close> and
  \<open>Quaternion.normalize\<close> evaluate the expressions of three.js in their order.
\<close>

datatype Matrix4 = Matrix4 number number number number number number number number
                           number number number number number number number number

definition Matrix4_IDENTITY :: Matrix4 where
  "Matrix4_IDENTITY = Matrix4 1 0 0 0  0 1 0 0  0 0 1 0  0 0 0 1"

definition Matrix4_elements :: "Matrix4 \<Rightarrow> nat \<Rightarrow> number" where
  "Matrix4_elements m i =
     (case m of Matrix4 n0 n1 n2 n3 n4 n5 n6 n7 n8 n9 n10 n11 n12 n13 n14 n15 \<Rightarrow>
      if i < 16 then [n0, n1, n2, n3, n4, n5, n6, n7, n8, n9, n10, n11, n12, n13, n14, n15] ! i
      else NaN)"

definition Matrix4_multiply :: "Matrix4 \<Rightarrow> Matrix4 \<Rightarrow> Matrix4" where
  "Matrix4_multiply a b =
     (case a of Matrix4 a11 a21 a31 a41 a12 a22 a32 a42 a13 a23 a33 a43 a14 a24 a34 a44 \<Rightarrow>
      case b of Matrix4 b11 b21 b31 b41 b12 b22 b32 b42 b13 b23 b33 b43 b14 b24 b34 b44 \<Rightarrow>
      Matrix4
       (a11 * b11 + a12 * b21 + a13 * b31 + a14 * b41)
       (a21 * b11 + a22 * b21 + a23 * b31 + a24 * b41)
       (a31 * b11 + a32 * b21 + a33 * b31 + a34 * b41)
       (a41 * b11 + a42 * b21 + a43 * b31 + a44 * b41)
       (a11 * b12 + a12 * b22 + a13 * b32 + a14 * b42)
       (a21 * b12 + a22 * b22 + a23 * b32 + a24 * b42)
       (a31 * b12 + a32 * b22 + a33 * b32 + a34 * b42)
       (a41 * b12 + a42 * b22 + a43 * b32 + a44 * b42)
       (a11 * b13 + a12 * b23 + a13 * b33 + a14 * b43)
       (a21 * b13 + a22 * b23 + a23 * b33 + a24 * b43)
       (a31 * b13 + a32 * b23 + a33 * b33 + a34 * b43)
       (a41 * b13 + a42 * b23 + a43 * b33 + a44 * b43)
       (a11 * b14 + a12 * b24 + a13 * b34 + a14 * b44)
       (a21 * b14 + a22 * b24 + a23 * b34 + a24 * b44)
       (a31 * b14 + a32 * b24 + a33 * b34 + a34 * b44)
       (a41 * b14 + a42 * b24 + a43 * b34 + a44 * b44))"

definition Matrix4_invert :: "Matrix4 \<Rightarrow> Matrix4" where
  "Matrix4_invert m =
     (case m of Matrix4 n11 n21 n31 n41 n12 n22 n32 n42 n13 n23 n33 n43 n14 n24 n34 n44 \<Rightarrow>
      let t11 = n23 * n34 * n42 - n24 * n33 * n42 + n24 * n32 * n43 - n22 * n34 * n43 - n23 * n32 * n44 + n22 * n33 * n44;
          t12 = n14 * n33 * n42 - n13 * n34 * n42 - n14 * n32 * n43 + n12 * n34 * n43 + n13 * n32 * n44 - n12 * n33 * n44;
          t13 = n13 * n24 * n42 - n14 * n23 * n42 + n14 * n22 * n43 - n12 * n24 * n43 - n13 * n22 * n44 + n12 * n23 * n44;
          t14 = n14 * n23 * n32 - n13 * n24 * n32 - n14 * n22 * n33 + n12 * n24 * n33 + n13 * n22 * n34 - n12 * n23 * n34;
          det = n11 * t11 + n21 * t12 + n31 * t13 + n41 * t14
      in if det = 0 then Matrix4 0 0 0 0  0 0 0 0  0 0 0 0  0 0 0 0
         else
           let detInv = 1 / det
           in Matrix4
               (t11 * detInv)
               ((n24 * n33 * n41 - n23 * n34 * n41 - n24 * n31 * n43 + n21 * n34 * n43 + n23 * n31 * n44 - n21 * n33 * n44) * detInv)
               ((n22 * n34 * n41 - n24 * n32 * n41 + n24 * n31 * n42 - n21 * n34 * n42 - n22 * n31 * n44 + n21 * n32 * n44) * detInv)
               ((n23 * n32 * n41 - n22 * n33 * n41 - n23 * n31 * n42 + n21 * n33 * n42 + n22 * n31 * n43 - n21 * n32 * n43) * detInv)
               (t12 * detInv)
               ((n13 * n34 * n41 - n14 * n33 * n41 + n14 * n31 * n43 - n11 * n34 * n43 - n13 * n31 * n44 + n11 * n33 * n44) * detInv)
               ((n14 * n32 * n41 - n12 * n34 * n41 - n14 * n31 * n42 + n11 * n34 * n42 + n12 * n31 * n44 - n11 * n32 * n44) * detInv)
               ((n12 * n33 * n41 - n13 * n32 * n41 + n13 * n31 * n42 - n11 * n33 * n42 - n12 * n31 * n43 + n11 * n32 * n43) * detInv)
               (t13 * detInv)
               ((n14 * n23 * n41 - n13 * n24 * n41 - n14 * n21 * n43 + n11 * n24 * n43 + n13 * n21 * n44 - n11 * n23 * n44) * detInv)
               ((n12 * n24 * n41 - n14 * n22 * n41 + n14 * n21 * n42 - n11 * n24 * n42 - n12 * n21 * n44 + n11 * n22 * n44) * detInv)
               ((n13 * n22 * n41 - n12 * n23 * n41 - n13 * n21 * n42 + n11 * n23 * n42 + n12 * n21 * n43 - n11 * n22 * n43) * detInv)
               (t14 * detInv)
               ((n13 * n24 * n31 - n14 * n23 * n31 + n14 * n21 * n33 - n11 * n24 * n33 - n13 * n21 * n34 + n11 * n23 * n34) * detInv)
               ((n14 * n22 * n31 - n12 * n24 * n31 - n14 * n21 * n32 + n11 * n24 * n32 + n12 * n21 * n34 - n11 * n22 * n34) * detInv)
               ((n12 * n23 * n31 - n13 * n22 * n31 + n13 * n21 * n32 - n11 * n23 * n32 - n12 * n21 * n33 + n11 * n22 * n33) * detInv))"

definition Matrix4_compose ::
  "number \<times> number \<times> number \<Rightarrow> number \<times> number \<times> number \<times> number \<Rightarrow> number \<times> number \<times> number \<Rightarrow>
   Matrix4" where
  "Matrix4_compose position quaternion scale =
     (case position of (px, py, pz) \<Rightarrow>
      case quaternion of (x, y, z, w) \<Rightarrow>
      case scale of (sx, sy, sz) \<Rightarrow>
      let x2 = x + x; y2 = y + y; z2 = z + z;
          xx = x * x2; xy = x * y2; xz = x * z2;
          yy = y * y2; yz = y * z2; zz = z * z2;
          wx = w * x2; wy = w * y2; wz = w * z2
      in Matrix4 ((1 - (yy + zz)) * sx) ((xy + wz) * sx) ((xz - wy) * sx) 0
                 ((xy - wz) * sy) ((1 - (xx + zz)) * sy) ((yz + wx) * sy) 0
                 ((xz + wy) * sz) ((yz - wx) * sz) ((1 - (xx + yy)) * sz) 0
                 px py pz 1)"

definition Quaternion_normalize ::
  "number \<times> number \<times> number \<times> number \<Rightarrow> number \<times> number \<times> number \<times> number" where
  "Quaternion_normalize q =
     (case q of (x, y, z, w) \<Rightarrow>
      let l = Math_sqrt (x * x + y * y + z * z + w * w)
      in if l = 0 then (0, 0, 0, 1)
         else let l1 = 1 / l in (x * l1, y * l1, z * l1, w * l1))"

definition three_js :: "(number, Matrix4) three" where
  "three_js = \<lparr>lit0 = 0, lit1 = 1, strictNeq = js_strictNeq,
     IDENTITY = Matrix4_IDENTITY, multiply = Matrix4_multiply, invert = Matrix4_invert,
     elements = Matrix4_elements, compose = Matrix4_compose, normalize = Quaternion_normalize\<rparr>"

subsection \<open>Concrete batches and stores\<close>

text \<open>
  An entry with a translation and the default rotation, the matrix of a translation,
  and the batches the properties below are run on; each store is what \<open>update\<close> makes
  of its batch, starting from the empty store.
\<close>

definition emptyStore :: "Mat4 TfStore" where
  "emptyStore = \<lparr>dynamicTransforms = [], staticTransforms = []\<rparr>"

definition translated :: "string \<Rightarrow> string \<Rightarrow> real \<Rightarrow> real \<Rightarrow> real \<Rightarrow> real TransformStamped" where
  "translated child parentFrame x y z =
     \<lparr>header' = Some \<lparr>frame_id = Some parentFrame\<rparr>, child_frame_id = Some child,
      transform = Some \<lparr>translation = Some (Vector3Msg (Some x) (Some y) (Some z)),
                        rotation = None\<rparr>\<rparr>"

definition translationMatrix :: "real \<Rightarrow> real \<Rightarrow> real \<Rightarrow> Mat4" where
  "translationMatrix x y z = Mat4 1 0 0 0  0 1 0 0  0 0 1 0  x y z 1"

definition scenarioMessage :: "real TfMessage" where
  "scenarioMessage = \<lparr>transforms = Some
     [\<lparr>header' = Some \<lparr>frame_id = Some ''A''\<rparr>, child_frame_id = Some ''B'', transform = None\<rparr>,
      translated ''C'' ''B'' 1 0 0]\<rparr>"

definition scenarioStore :: "Mat4 TfStore" where
  "scenarioStore = fst (update three_real emptyStore scenarioMessage False)"



definition selfLoopMessage :: "real TfMessage" where
  "selfLoopMessage = \<lparr>transforms = Some [translated ''A'' ''A'' 1 0 0]\<rparr>"

definition selfLoopStore :: "Mat4 TfStore" where
  "selfLoopStore = fst (update three_real emptyStore selfLoopMessage False)"

definition duplicateChildMessage :: "real TfMessage" where
  "duplicateChildMessage = \<lparr>transforms = Some [translated ''A'' ''B'' 0 0 0, translated ''A'' ''C'' 0 0 0]\<rparr>"



text \<open>
  Over JavaScript numbers: the edge \<open>A \<rightarrow> map\<close> whose translation has \<open>x = NaN\<close>,
  and the store \<open>update\<close> makes of it.
\<close>

definition nanTransformMessage :: "number TfMessage" where
  "nanTransformMessage = \<lparr>transforms = Some
     [\<lparr>header' = Some \<lparr>frame_id = Some ''map''\<rparr>, child_frame_id = Some ''A'',
       transform = Some \<lparr>translation = Some (Vector3Msg (Some NaN) (Some 0) (Some 0)),
                         rotation = None\<rparr>\<rparr>]\<rparr>"

definition nanTransformStore :: "Matrix4 TfStore" where
  "nanTransformStore =
     fst (update three_js \<lparr>dynamicTransforms = [], staticTransforms = []\<rparr> nanTransformMessage False)"

subsection \<open>Rigid matrices\<close>

text \<open>
  In the real instance, a matrix is rigid when its last row is \<open>(0, 0, 0, 1)\<close> and its
  upper-left 3 \<times> 3 block has determinant 1. A store is rigid when every matrix it holds
  is. The stores the class can be in are those reached from the empty store by
  \<open>update\<close>, \<open>resetDynamic\<close> and \<open>clearAll\<close>.
\<close>

definition rigid :: "Mat4 \<Rightarrow> bool" where
  "rigid m =
     (case m of Mat4 n0 n1 n2 n3 n4 n5 n6 n7 n8 n9 n10 n11 n12 n13 n14 n15 \<Rightarrow>
      n3 = 0 \<and> n7 = 0 \<and> n11 = 0 \<and> n15 = 1 \<and> det3 n0 n4 n8 n1 n5 n9 n2 n6 n10 = 1)"

definition rigidStore :: "Mat4 TfStore \<Rightarrow> bool" where
  "rigidStore st =
     list_all (\<lambda>e. rigid (matrix (snd e))) (dynamicTransforms st @ staticTransforms st)"

inductive reachable :: "Mat4 TfStore \<Rightarrow> bool" where
  reachable_empty: "reachable emptyStore"
| reachable_update: "reachable st \<Longrightarrow> reachable (fst (update three_real st message isStatic))"
| reachable_resetDynamic: "reachable st \<Longrightarrow> reachable (resetDynamic st)"
| reachable_clearAll: "reachable st \<Longrightarrow> reachable (clearAll st)"

subsection \<open>Batches, as the properties speak of them\<close>

text \<open>
  Not part of the source: the key and the parent under which \<open>update\<close> files an entry
  (no key when the entry is skipped), and what it means for two entries to describe the
  same edge as far as \<open>update\<close> can tell.
\<close>

definition entryChild :: "'n TransformStamped \<Rightarrow> string option" where
  "entryChild t = (case normalizeFrame (child_frame_id t) of
                     None \<Rightarrow> None
                   | Some child \<Rightarrow> if child = [] then None else Some child)"

definition entryParent :: "'n TransformStamped \<Rightarrow> string option" where
  "entryParent t = normalizeFrame (headerFrame (header' t))"

definition sameEdge :: "('n, 'm) three \<Rightarrow> 'n TransformStamped \<Rightarrow> 'n TransformStamped \<Rightarrow> bool" where
  "sameEdge ops t1 t2 =
     (entryParent t1 = entryParent t2 \<and>
      \<not> matricesDiffer ops (composeMatrix ops t1) (composeMatrix ops t2))"

definition consistentBatch :: "('n, 'm) three \<Rightarrow> 'n TransformStamped list \<Rightarrow> bool" where
  "consistentBatch ops ts =
     list_all (\<lambda>t1. list_all (\<lambda>t2. entryChild t1 = None \<or> entryChild t1 \<noteq> entryChild t2 \<or>
                                     sameEdge ops t1 t2) ts) ts"

definition agrees :: "('n, 'm) three \<Rightarrow> 'm edges \<Rightarrow> 'n TransformStamped \<Rightarrow> bool" where
  "agrees ops store t =
     (case entryChild t of
        None \<Rightarrow> True
      | Some child \<Rightarrow>
          (case map_of store child of
             None \<Rightarrow> False
           | Some prev \<Rightarrow> parent prev = entryParent t \<and>
                          \<not> matricesDiffer ops (matrix prev) (composeMatrix ops t)))"


section \<open>Properties of the point-record decoder\<close>

subsection \<open>What an accepted message went through\<close>

lemma parsePointCloud2_SomeE:
  assumes "parsePointCloud2 fround topic message = Inr (Some r)"
  obtains bytes xField yField zField pos cols validPoints where
    "data message = Some bytes"
    "0 < width message * height message"
    "point_step message * (width message * height message) \<le> length bytes"
    "find (\<lambda>field. name field = ''x'') (fields' message) = Some xField"
    "find (\<lambda>field. name field = ''y'') (fields' message) = Some yField"
    "find (\<lambda>field. name field = ''z'') (fields' message) = Some zField"
    "parseLoop (decodeRecord fround bytes (point_step message)
                  (littleEndianOf message) xField yField zField (find isColorField (fields' message)))
        (width message * height message) 0
        (replicate (width message * height message * 3) (Num 0),
         (case find isColorField (fields' message) of None \<Rightarrow> None
          | Some cf \<Rightarrow> Some (replicate (width message * height message * 3) (Num 0))), 0)
      = Inr (pos, cols, validPoints)"
    "validPoints \<noteq> 0"
    "r = \<lparr>id' = topic,
          frameId = orElse (normalizeFrame (headerFrame (header message))) DEFAULT_FRAME,
          positions = (if validPoints * 3 = length pos then pos else take (validPoints * 3) pos),
          colors = (case cols of
                      Some cs \<Rightarrow> if validPoints * 3 \<noteq> length cs then Some (take (validPoints * 3) cs)
                                 else Some cs
                    | None \<Rightarrow> None)\<rparr>"
proof -
  note d = parsePointCloud2_def Let_def
  obtain bytes where 1: "data message = Some bytes"
    using assms by (cases "data message") (simp_all add: d)
  have 2: "0 < width message * height message"
    using assms 1 by (cases "0 < width message * height message") (simp_all add: d)
  have 3: "point_step message * (width message * height message) \<le> length bytes"
    using assms 1 2
    by (cases "point_step message * (width message * height message) \<le> length bytes")
       (simp_all add: d)
  obtain xField where 4: "find (\<lambda>field. name field = ''x'') (fields' message) = Some xField"
    using assms 1 2 3
    by (cases "find (\<lambda>field. name field = ''x'') (fields' message)") (simp_all add: d)
  obtain yField where 5: "find (\<lambda>field. name field = ''y'') (fields' message) = Some yField"
    using assms 1 2 3 4
    by (cases "find (\<lambda>field. name field = ''y'') (fields' message)") (simp_all add: d)
  obtain zField where 6: "find (\<lambda>field. name field = ''z'') (fields' message) = Some zField"
    using assms 1 2 3 4 5
    by (cases "find (\<lambda>field. name field = ''z'') (fields' message)") (simp_all add: d)
  let ?loop = "parseLoop (decodeRecord fround bytes (point_step message)
                  (littleEndianOf message) xField yField zField (find isColorField (fields' message)))
        (width message * height message) 0
        (replicate (width message * height message * 3) (Num 0),
         (case find isColorField (fields' message) of None \<Rightarrow> None
          | Some cf \<Rightarrow> Some (replicate (width message * height message * 3) (Num 0))), 0)"
  obtain pos cols validPoints where 7: "?loop = Inr (pos, cols, validPoints)"
    using assms 1 2 3 4 5 6
    by (cases ?loop) (auto simp add: d)
  have 8: "validPoints \<noteq> 0"
    using assms 1 2 3 4 5 6 7 by (cases "validPoints = 0") (simp_all add: d)
  have 9: "r = \<lparr>id' = topic,
          frameId = orElse (normalizeFrame (headerFrame (header message))) DEFAULT_FRAME,
          positions = (if validPoints * 3 = length pos then pos else take (validPoints * 3) pos),
          colors = (case cols of
                      Some cs \<Rightarrow> if validPoints * 3 \<noteq> length cs then Some (take (validPoints * 3) cs)
                                 else Some cs
                    | None \<Rightarrow> None)\<rparr>"
    using assms 1 2 3 4 5 6 7 8 by (simp add: d)
  show ?thesis
    using that 1 2 3 4 5 6 7 8 9 by blast
qed

subsection \<open>Records of a message, as the properties speak of them\<close>

text \<open>
  The next definitions are not part of the source; they name what the properties are
  about. \<open>recordXYZ\<close> is the triple of coordinates read for record \<open>i\<close> when none of the
  three reads raises, \<open>recordAccepted\<close> says that all three are finite, and
  \<open>recordPosition\<close> and \<open>recordColor\<close> are the three array elements such a record
  contributes.
\<close>

definition recordXYZ ::
  "DataView \<Rightarrow> nat \<Rightarrow> bool \<Rightarrow> PointField \<Rightarrow> PointField \<Rightarrow> PointField \<Rightarrow> nat \<Rightarrow>
   (number \<times> number \<times> number) option" where
  "recordXYZ view step littleEndian xField yField zField i =
     (case (readNumeric view (i * step + offset xField) (field_datatype xField) littleEndian,
            readNumeric view (i * step + offset yField) (field_datatype yField) littleEndian,
            readNumeric view (i * step + offset zField) (field_datatype zField) littleEndian) of
        (Inr x, Inr y, Inr z) \<Rightarrow> Some (x, y, z)
      | _ \<Rightarrow> None)"

definition recordAccepted ::
  "DataView \<Rightarrow> nat \<Rightarrow> bool \<Rightarrow> PointField \<Rightarrow> PointField \<Rightarrow> PointField \<Rightarrow> nat \<Rightarrow> bool" where
  "recordAccepted view step littleEndian xField yField zField i =
     (case recordXYZ view step littleEndian xField yField zField i of
        Some (x, y, z) \<Rightarrow> isFinite x \<and> isFinite y \<and> isFinite z
      | None \<Rightarrow> False)"

definition recordPosition ::
  "(number \<Rightarrow> number) \<Rightarrow> DataView \<Rightarrow> nat \<Rightarrow> bool \<Rightarrow> PointField \<Rightarrow> PointField \<Rightarrow> PointField \<Rightarrow> nat \<Rightarrow>
   number list" where
  "recordPosition fround view step littleEndian xField yField zField i =
     (case recordXYZ view step littleEndian xField yField zField i of
        Some (x, y, z) \<Rightarrow> [fround x, fround y, fround z]
      | None \<Rightarrow> [])"

definition recordColor ::
  "(number \<Rightarrow> number) \<Rightarrow> DataView \<Rightarrow> nat \<Rightarrow> bool \<Rightarrow> PointField \<Rightarrow> nat \<Rightarrow> number list" where
  "recordColor fround view step littleEndian colorField i =
     (case readColor view (i * step + offset colorField) (field_datatype colorField) littleEndian of
        Inr (r, g, b) \<Rightarrow> [fround r, fround g, fround b]
      | Inl e \<Rightarrow> [])"

definition colsOK :: "number list option \<Rightarrow> PointField option \<Rightarrow> nat \<Rightarrow> bool" where
  "colsOK cols cF n = (case cols of None \<Rightarrow> cF = None | Some cs \<Rightarrow> cF \<noteq> None \<and> length cs = n * 3)"

definition colorOf :: "(number \<Rightarrow> number) \<Rightarrow> DataView \<Rightarrow> nat \<Rightarrow> bool \<Rightarrow> PointField option \<Rightarrow> nat \<Rightarrow> number list" where
  "colorOf fround view step le cF i = (case cF of Some cf \<Rightarrow> recordColor fround view step le cf i | None \<Rightarrow> [])"

text \<open>The same notions for a whole message.\<close>

definition acceptedRecords :: "PointCloud2Message \<Rightarrow> nat list" where
  "acceptedRecords message =
     (case (data message,
            find (\<lambda>field. name field = ''x'') (fields' message),
            find (\<lambda>field. name field = ''y'') (fields' message),
            find (\<lambda>field. name field = ''z'') (fields' message)) of
        (Some bytes, Some xField, Some yField, Some zField) \<Rightarrow>
          filter (recordAccepted bytes (point_step message) (littleEndianOf message) xField yField zField)
                 [0..<width message * height message]
      | _ \<Rightarrow> [])"

definition positionOfRecord :: "(number \<Rightarrow> number) \<Rightarrow> PointCloud2Message \<Rightarrow> nat \<Rightarrow> number list" where
  "positionOfRecord fround message i =
     (case (data message,
            find (\<lambda>field. name field = ''x'') (fields' message),
            find (\<lambda>field. name field = ''y'') (fields' message),
            find (\<lambda>field. name field = ''z'') (fields' message)) of
        (Some bytes, Some xField, Some yField, Some zField) \<Rightarrow>
          recordPosition fround bytes (point_step message) (littleEndianOf message) xField yField zField i
      | _ \<Rightarrow> [])"

definition colorOfRecord :: "(number \<Rightarrow> number) \<Rightarrow> PointCloud2Message \<Rightarrow> PointField \<Rightarrow> nat \<Rightarrow> number list" where
  "colorOfRecord fround message colorField i =
     (case data message of
        Some bytes \<Rightarrow> recordColor fround bytes (point_step message) (littleEndianOf message) colorField i
      | None \<Rightarrow> [])"

text \<open>
  The structural conditions under which the decoder declines before reading any record,
  and the eight numeric types \<open>readNumeric\<close> knows.
\<close>

definition structurallyInvalid :: "PointCloud2Message \<Rightarrow> bool" where
  "structurallyInvalid message =
     (width message * height message = 0 \<or>
      (case data message of
         None \<Rightarrow> True
       | Some bytes \<Rightarrow> length bytes < point_step message * (width message * height message)) \<or>
      find (\<lambda>field. name field = ''x'') (fields' message) = None \<or>
      find (\<lambda>field. name field = ''y'') (fields' message) = None \<or>
      find (\<lambda>field. name field = ''z'') (fields' message) = None)"

definition supported :: "nat \<Rightarrow> bool" where
  "supported dt = (dt \<in> {INT8, UINT8, INT16, UINT16, INT32, UINT32, FLOAT32, FLOAT64})"

subsection \<open>Small messages used to run the decoder\<close>

text \<open>Three one-byte unsigned coordinates per record, at offsets 0, 1 and 2.\<close>

definition u8xyz :: "PointField list" where
  "u8xyz = [\<lparr>name = ''x'', offset = 0, field_datatype = 2, count = 1\<rparr>,
            \<lparr>name = ''y'', offset = 1, field_datatype = 2, count = 1\<rparr>,
            \<lparr>name = ''z'', offset = 2, field_datatype = 2, count = 1\<rparr>]"

definition framedMessage :: "Header option \<Rightarrow> PointCloud2Message" where
  "framedMessage h = \<lparr>header = h, height = 1, width = 1, fields' = u8xyz,
     is_bigendian = None, point_step = 3, row_step = 3, data = Some [1, 2, 3]\<rparr>"

lemmas DataView_defs =
  getRaw_def getUint8_def getInt8_def getUint16_def getInt16_def getUint32_def getInt32_def
  getFloat32_def getFloat64_def

lemmas decoder_defs =
  parsePointCloud2_def decodeRecord_def readNumeric_def readColor_def isColorField_def
  littleEndianOf_def PointFieldType_defs DataView_defs parseLoop.simps Let_def

lemma framedMessage_accepted:
  "parsePointCloud2 (\<lambda>v. v) ''cloud'' (framedMessage h) =
     Inr (Some \<lparr>id' = ''cloud'',
                frameId = orElse (normalizeFrame (headerFrame h)) DEFAULT_FRAME,
                positions = [Num 1, Num 2, Num 3], colors = None\<rparr>)"
  by (simp add: framedMessage_def u8xyz_def decoder_defs) (simp add: numeral_3_eq_3)

subsection \<open>Frame name of the output\<close>

text \<open>
  Claim C9. When the source frame name of an accepted message is exactly \<open>/\<close>, the output
  \<open>frameId\<close> is the empty string and not the default \<open>map\<close>: normalization turns \<open>/\<close>
  into the empty string, which \<open>??\<close> does not treat as absent. The default \<open>map\<close> is the
  output when the source frame is absent or the empty string, and only then does the
  default apply: any other name yields its normalization.
\<close>

theorem frameId_of_slash_is_empty:
  assumes "parsePointCloud2 fround topic message = Inr (Some r)"
  shows "(headerFrame (header message) = Some ''/'' \<longrightarrow>
            frameId r = [] \<and> frameId r \<noteq> DEFAULT_FRAME) \<and>
         (headerFrame (header message) = None \<or> headerFrame (header message) = Some [] \<longrightarrow>
            frameId r = ''map'') \<and>
         (\<forall>f. headerFrame (header message) = Some f \<and> f \<noteq> [] \<longrightarrow>
            normalizeFrame (Some f) = Some (frameId r))"
proof -
  from assms have "frameId r = orElse (normalizeFrame (headerFrame (header message))) DEFAULT_FRAME"
    by (elim parsePointCloud2_SomeE) simp
  then show ?thesis
    by (auto simp: DEFAULT_FRAME_def neq_Nil_conv)
qed

theorem frameId_of_slash_is_empty_witness:
  "parsePointCloud2 (\<lambda>v. v) ''cloud'' (framedMessage (Some \<lparr>frame_id = Some ''/''\<rparr>)) =
     Inr (Some \<lparr>id' = ''cloud'', frameId = [], positions = [Num 1, Num 2, Num 3], colors = None\<rparr>) \<and>
   parsePointCloud2 (\<lambda>v. v) ''cloud'' (framedMessage None) =
     Inr (Some \<lparr>id' = ''cloud'', frameId = ''map'', positions = [Num 1, Num 2, Num 3],
                colors = None\<rparr>)"
proof -
  have a: "parsePointCloud2 (\<lambda>v. v) ''cloud'' (framedMessage (Some \<lparr>frame_id = Some ''/''\<rparr>)) =
     Inr (Some \<lparr>id' = ''cloud'', frameId = [], positions = [Num 1, Num 2, Num 3], colors = None\<rparr>)"
    by (simp add: framedMessage_accepted)
  have b: "parsePointCloud2 (\<lambda>v. v) ''cloud'' (framedMessage None) =
     Inr (Some \<lparr>id' = ''cloud'', frameId = DEFAULT_FRAME, positions = [Num 1, Num 2, Num 3],
                colors = None\<rparr>)"
    by (simp add: framedMessage_accepted)
  have "DEFAULT_FRAME = ''map''"
    using frameId_of_slash_is_empty [OF b] by (simp add: framedMessage_def)
  moreover have "[] \<noteq> DEFAULT_FRAME"
    using frameId_of_slash_is_empty [OF a] by (simp add: framedMessage_def)
  ultimately show ?thesis
    using a b by simp
qed

subsection \<open>Packed colors\<close>

lemma byte_mask: "(0xff :: 32 word) = mask 8" by (simp add: mask_eq_exp_minus_1)

lemma arithmetic_shift_byte: "signed_drop_bit s (w :: 32 word) AND 0xff = drop_bit s w AND 0xff" if "s \<le> 24"
  unfolding byte_mask
  using that by (intro bit_word_eqI) (auto simp: bit_simps)

lemma byte_of_low_32_bits: "take_bit 8 (drop_bit s (take_bit 32 (v::nat))) = take_bit 8 (drop_bit s v)" if "s \<le> 24"
  using that by (intro bit_eqI) (auto simp: bit_simps)

lemma unat_shifted_byte: "unat (drop_bit s (word_of_nat v :: 32 word) AND 0xff) = v div 2 ^ s mod 256" if "s \<le> 24"
proof -
  have "unat (drop_bit s (word_of_nat v :: 32 word) AND mask 8)
        = take_bit 8 (drop_bit s (take_bit 32 v))"
    by (simp add: unsigned_take_bit_eq unat_drop_bit_eq unsigned_of_nat flip: take_bit_eq_mask)
  also have "\<dots> = take_bit 8 (drop_bit s v)"
    using that by (rule byte_of_low_32_bits)
  also have "\<dots> = v div 2 ^ s mod 256"
    by (simp add: take_bit_eq_mod drop_bit_eq_div)
  finally show ?thesis by (simp add: byte_mask)
qed

lemma sint_shifted_byte: "sint (signed_drop_bit s (word_of_nat v :: 32 word) AND 0xff) = int (v div 2 ^ s mod 256)" if "s \<le> 24"
proof -
  let ?x = "drop_bit s (word_of_nat v :: 32 word) AND 0xff"
  have u: "uint ?x = int (v div 2 ^ s mod 256)"
    using unat_shifted_byte [OF that, of v] by (simp add: uint_nat)
  have "sint ?x = signed_take_bit 31 (uint ?x)"
    by (simp add: sint_uint)
  also have "\<dots> = uint ?x"
  proof -
    have "v div 2 ^ s mod 256 < 256" by simp
    then have "int (v div 2 ^ s mod 256) < 2 ^ 31" by simp
    moreover have "- (2 ^ 31) \<le> int (v div 2 ^ s mod 256)" by simp
    ultimately show ?thesis
      unfolding u by (intro signed_take_bit_int_eq_self)
  qed
  finally show ?thesis
    using u by (simp add: arithmetic_shift_byte [OF that])
qed


lemma channel_eq:
  "s \<le> 24 \<Longrightarrow> channel v s = Num (real (v div 2 ^ s mod 256) / 255)"
  by (simp add: channel_def ToInt32_def sint_shifted_byte)



subsection \<open>Accepted records are compacted in order\<close>

lemma take_update3:
  assumes "3 * k + 3 \<le> length xs"
  shows "take (3 * k + 3) (xs[k * 3 := a, k * 3 + 1 := b, k * 3 + 2 := c]) = take (3 * k) xs @ [a, b, c]"
proof (rule nth_equalityI)
  show "length (take (3 * k + 3) (xs[k * 3 := a, k * 3 + 1 := b, k * 3 + 2 := c])) = length (take (3 * k) xs @ [a, b, c])"
    using assms by simp
next
  fix i assume "i < length (take (3 * k + 3) (xs[k * 3 := a, k * 3 + 1 := b, k * 3 + 2 := c]))"
  then have i: "i < 3 * k + 3" using assms by simp
  consider "i < 3 * k" | "i = 3 * k" | "i = 3 * k + 1" | "i = 3 * k + 2" using i by linarith
  then show "take (3 * k + 3) (xs[k * 3 := a, k * 3 + 1 := b, k * 3 + 2 := c]) ! i = (take (3 * k) xs @ [a, b, c]) ! i"
    using assms by cases (auto simp: nth_append nth_list_update mult.commute)
qed

lemma decodeRecord_step:
  assumes "decodeRecord fround view step le xF yF zF cF i (pos, cols, vp) = Inr (pos', cols', vp')"
  shows "recordXYZ view step le xF yF zF i \<noteq> None \<and>
         (if recordAccepted view step le xF yF zF i
          then vp' = vp + 1 \<and>
               (\<exists>a b c. recordPosition fround view step le xF yF zF i = [a, b, c] \<and>
                   pos' = pos[vp * 3 := a, vp * 3 + 1 := b, vp * 3 + 2 := c]) \<and>
               (case (cols, cF) of
                  (Some cs, Some cf) \<Rightarrow>
                     (\<exists>r g b. recordColor fround view step le cf i = [r, g, b] \<and>
                         cols' = Some (cs[vp * 3 := r, vp * 3 + 1 := g, vp * 3 + 2 := b]))
                | _ \<Rightarrow> cols' = cols)
          else vp' = vp \<and> pos' = pos \<and> cols' = cols)"
  using assms
  unfolding decodeRecord_def recordXYZ_def recordAccepted_def recordPosition_def recordColor_def Let_def
  by (auto split: sum.splits option.splits if_splits prod.splits)


lemma decodeRecord_abs:
  assumes step: "decodeRecord fround view step le xF yF zF cF i (pos, cols, vp) = Inr (pos', cols', vp')"
      and len: "length pos = n * 3" and ok: "colsOK cols cF n" and vp: "vp < n"
  shows "recordXYZ view step le xF yF zF i \<noteq> None"
    and "length pos' = n * 3" and "colsOK cols' cF n"
    and "recordAccepted view step le xF yF zF i \<Longrightarrow> vp' = vp + 1"
    and "recordAccepted view step le xF yF zF i \<Longrightarrow>
           take (3 * vp') pos' = take (3 * vp) pos @ recordPosition fround view step le xF yF zF i"
    and "recordAccepted view step le xF yF zF i \<Longrightarrow>
           map_option (take (3 * vp')) cols' =
           map_option (\<lambda>cs. take (3 * vp) cs @ colorOf fround view step le cF i) cols"
    and "\<not> recordAccepted view step le xF yF zF i \<Longrightarrow> vp' = vp \<and> pos' = pos \<and> cols' = cols"
proof -
  note s = decodeRecord_step [OF step]
  show "recordXYZ view step le xF yF zF i \<noteq> None" using s by simp
  show "length pos' = n * 3" using s len by (auto split: if_splits)
  show "colsOK cols' cF n"
    using s ok by (auto simp: colsOK_def split: if_splits option.splits)
  show "\<not> recordAccepted view step le xF yF zF i \<Longrightarrow> vp' = vp \<and> pos' = pos \<and> cols' = cols"
    using s by simp
  assume a: "recordAccepted view step le xF yF zF i"
  show v: "vp' = vp + 1" using s a by simp
  have b: "3 * vp + 3 \<le> n * 3" using vp by simp
  from s a obtain x y z where p: "recordPosition fround view step le xF yF zF i = [x, y, z]"
      "pos' = pos[vp * 3 := x, vp * 3 + 1 := y, vp * 3 + 2 := z]"
    by auto
  have "take (3 * vp + 3) pos' = take (3 * vp) pos @ [x, y, z]"
    unfolding p(2) using b len by (intro take_update3) simp
  then show "take (3 * vp') pos' = take (3 * vp) pos @ recordPosition fround view step le xF yF zF i"
    using v p(1) by (simp add: algebra_simps)
  show "map_option (take (3 * vp')) cols' =
           map_option (\<lambda>cs. take (3 * vp) cs @ colorOf fround view step le cF i) cols"
  proof (cases cols)
    case None
    then show ?thesis using s a by simp
  next
    case (Some cs)
    then obtain cf where cf: "cF = Some cf" and lcs: "length cs = n * 3"
      using ok by (auto simp: colsOK_def)
    from s a Some cf obtain r g bl where c: "recordColor fround view step le cf i = [r, g, bl]"
      "cols' = Some (cs[vp * 3 := r, vp * 3 + 1 := g, vp * 3 + 2 := bl])"
      by auto
    have "take (3 * vp + 3) (cs[vp * 3 := r, vp * 3 + 1 := g, vp * 3 + 2 := bl]) = take (3 * vp) cs @ [r, g, bl]"
      using b lcs by (intro take_update3) simp
    then show ?thesis
      using Some cf c v by (simp add: colorOf_def algebra_simps)
  qed
qed

lemma parseLoop_invariant:
  assumes "parseLoop (decodeRecord fround view step le xF yF zF cF) n i (pos, cols, vp) = Inr (pos', cols', vp')"
      and "length pos = n * 3" and "colsOK cols cF n" and "vp \<le> i"
  shows "vp' = vp + length (filter (recordAccepted view step le xF yF zF) [i..<n]) \<and>
         length pos' = n * 3 \<and> colsOK cols' cF n \<and>
         (\<forall>j. i \<le> j \<and> j < n \<longrightarrow> recordXYZ view step le xF yF zF j \<noteq> None) \<and>
         take (3 * vp') pos' = take (3 * vp) pos @
            concat (map (recordPosition fround view step le xF yF zF)
                        (filter (recordAccepted view step le xF yF zF) [i..<n])) \<and>
         map_option (take (3 * vp')) cols' =
            map_option (\<lambda>cs. take (3 * vp) cs @
               concat (map (colorOf fround view step le cF)
                           (filter (recordAccepted view step le xF yF zF) [i..<n]))) cols"
  using assms
proof (induction "n - i" arbitrary: i pos cols vp)
  case 0
  then have "n \<le> i" by simp
  with "0.prems" show ?case
    by (cases cols) (auto simp: parseLoop.simps)
next
  case (Suc k)
  then have lt: "i < n" by simp
  from Suc.prems(1) lt obtain p1 c1 v1 where
    body: "decodeRecord fround view step le xF yF zF cF i (pos, cols, vp) = Inr (p1, c1, v1)" and
    rest: "parseLoop (decodeRecord fround view step le xF yF zF cF) n (i + 1) (p1, c1, v1) = Inr (pos', cols', vp')"
    by (subst (asm) parseLoop.simps) (auto split: sum.splits)
  have vpn: "vp < n" using Suc.prems(4) lt by simp
  note st = decodeRecord_abs [OF body Suc.prems(2) Suc.prems(3) vpn]
  have v1: "v1 \<le> i + 1"
    using st(4) st(7) Suc.prems(4) by (cases "recordAccepted view step le xF yF zF i") auto
  have k: "k = n - (i + 1)" using Suc.hyps(2) by simp
  note IH = Suc.hyps(1) [OF k rest st(2) st(3) v1]
  have upt: "[i..<n] = i # [i + 1..<n]" using lt by (simp add: upt_conv_Cons)
  have xyz: "\<forall>j. i \<le> j \<and> j < n \<longrightarrow> recordXYZ view step le xF yF zF j \<noteq> None"
  proof (intro allI impI)
    fix j assume "i \<le> j \<and> j < n"
    then consider "j = i" | "i + 1 \<le> j \<and> j < n" by linarith
    then show "recordXYZ view step le xF yF zF j \<noteq> None"
      using st(1) IH by cases auto
  qed
  let ?acc = "recordAccepted view step le xF yF zF"
  let ?P = "recordPosition fround view step le xF yF zF"
  let ?C = "colorOf fround view step le cF"
  from IH have IH1: "vp' = v1 + length (filter ?acc [i + 1..<n])"
    and IH2: "length pos' = n * 3" and IH3: "colsOK cols' cF n"
    and IH5: "take (3 * vp') pos' = take (3 * v1) p1 @ concat (map ?P (filter ?acc [i + 1..<n]))"
    and IH6: "map_option (take (3 * vp')) cols' =
       map_option (\<lambda>cs. take (3 * v1) cs @ concat (map ?C (filter ?acc [i + 1..<n]))) c1"
    by blast+
  show ?case
  proof (cases "?acc i")
    case True
    note a = st(4) [OF True] st(5) [OF True] st(6) [OF True]
    have f: "filter ?acc [i..<n] = i # filter ?acc [i + 1..<n]"
      unfolding upt using True by simp
    have 1: "vp' = vp + length (filter ?acc [i..<n])"
      unfolding f using IH1 a(1) by simp
    have 5: "take (3 * vp') pos' = take (3 * vp) pos @ concat (map ?P (filter ?acc [i..<n]))"
      unfolding f using IH5 a(2) by simp
    have "map_option (take (3 * vp')) cols' =
        map_option (\<lambda>cs. cs @ concat (map ?C (filter ?acc [i + 1..<n]))) (map_option (take (3 * v1)) c1)"
      using IH6 by (simp add: option.map_comp comp_def)
    also have "\<dots> = map_option (\<lambda>cs. take (3 * vp) cs @ concat (map ?C (filter ?acc [i..<n]))) cols"
      unfolding a(3) f by (simp add: option.map_comp comp_def)
    finally have 6: "map_option (take (3 * vp')) cols' =
        map_option (\<lambda>cs. take (3 * vp) cs @ concat (map ?C (filter ?acc [i..<n]))) cols" .
    show ?thesis
      using 1 IH2 IH3 xyz 5 6 by blast
  next
    case False
    with st(7) have e: "v1 = vp" "p1 = pos" "c1 = cols" by simp_all
    have f: "filter ?acc [i..<n] = filter ?acc [i + 1..<n]"
      unfolding upt using False by simp
    show ?thesis
      unfolding f using IH1 IH2 IH3 IH5 IH6 xyz unfolding e by blast
  qed
qed


lemma colorOf_Some:
  "colorOf fround view step le (Some cf) = recordColor fround view step le cf"
  by (rule ext) (simp add: colorOf_def)

lemma length_concat_triples:
  assumes "\<And>x. x \<in> set xs \<Longrightarrow> length (f x) = 3"
  shows "length (concat (map f xs)) = 3 * length xs"
  using assms by (induction xs) simp_all

lemma recordPosition_length:
  "recordAccepted view step le xF yF zF i \<Longrightarrow> length (recordPosition fround view step le xF yF zF i) = 3"
  by (auto simp: recordAccepted_def recordPosition_def split: option.splits)

text \<open>
  Claim C5. For every message that the decoder accepts, the \<open>positions\<close> array is the
  concatenation, in record order, of the coordinate triples of exactly the records
  whose decoded \<open>x\<close>, \<open>y\<close>, \<open>z\<close> are all finite; its length is three times the number
  of those records; and the \<open>colors\<close> array, when there is a color field, holds the
  colors of the same records in the same order, so a rejected record contributes
  neither a position nor a color.
\<close>

theorem accepted_records_compacted_in_order:
  assumes "parsePointCloud2 fround topic message = Inr (Some r)"
  shows "positions r = concat (map (positionOfRecord fround message) (acceptedRecords message)) \<and>
         length (positions r) = 3 * length (acceptedRecords message) \<and>
         colors r = map_option (\<lambda>colorField. concat (map (colorOfRecord fround message colorField)
                                                        (acceptedRecords message)))
                       (find isColorField (fields' message))"
  using assms
proof (elim parsePointCloud2_SomeE)
  fix bytes xF yF zF pos cols vp
  let ?n = "width message * height message"
  let ?le = "littleEndianOf message"
  let ?cF = "find isColorField (fields' message)"
  let ?cols0 = "(case ?cF of None \<Rightarrow> None | Some cf \<Rightarrow> Some (replicate (?n * 3) (Num 0)))"
  let ?acc = "recordAccepted bytes (point_step message) ?le xF yF zF"
  assume d: "data message = Some bytes"
    and fx: "find (\<lambda>field. name field = ''x'') (fields' message) = Some xF"
    and fy: "find (\<lambda>field. name field = ''y'') (fields' message) = Some yF"
    and fz: "find (\<lambda>field. name field = ''z'') (fields' message) = Some zF"
    and loop: "parseLoop (decodeRecord fround bytes (point_step message)
                  (littleEndianOf message) xF yF zF ?cF) ?n 0 (replicate (?n * 3) (Num 0), ?cols0, 0) = Inr (pos, cols, vp)"
    and r: "r = \<lparr>id' = topic,
          frameId = orElse (normalizeFrame (headerFrame (header message))) DEFAULT_FRAME,
          positions = (if vp * 3 = length pos then pos else take (vp * 3) pos),
          colors = (case cols of
                      Some cs \<Rightarrow> if vp * 3 \<noteq> length cs then Some (take (vp * 3) cs)
                                 else Some cs
                    | None \<Rightarrow> None)\<rparr>"
  have ok0: "colsOK ?cols0 ?cF ?n"
    by (simp add: colsOK_def split: option.splits)
  note inv = parseLoop_invariant [OF loop _ ok0, simplified]
  have acc: "acceptedRecords message = filter ?acc [0..<?n]"
    by (simp add: acceptedRecords_def d fx fy fz)
  have P: "positionOfRecord fround message = recordPosition fround bytes (point_step message) ?le xF yF zF"
    by (rule ext) (simp add: positionOfRecord_def d fx fy fz)
  have C: "colorOfRecord fround message cf = recordColor fround bytes (point_step message) ?le cf" for cf
    by (rule ext) (simp add: colorOfRecord_def d)
  from inv have tk0: "take (3 * vp) pos =
      concat (map (recordPosition fround bytes (point_step message) ?le xF yF zF) (filter ?acc [0..<?n]))"
    and ck0: "map_option (take (3 * vp)) cols =
      map_option (\<lambda>cs. concat (map (colorOf fround bytes (point_step message) ?le ?cF)
                                    (filter ?acc [0..<?n]))) ?cols0"
    by blast+
  have tk: "take (3 * vp) pos = concat (map (positionOfRecord fround message) (acceptedRecords message))"
    unfolding P acc by (rule tk0)
  have "positions r = take (3 * vp) pos"
    unfolding r by (simp add: mult.commute)
  then have 1: "positions r = concat (map (positionOfRecord fround message) (acceptedRecords message))"
    using tk by simp
  have 2: "length (positions r) = 3 * length (acceptedRecords message)"
    unfolding 1 P acc by (intro length_concat_triples recordPosition_length) simp
  have "colors r = map_option (take (3 * vp)) cols"
    unfolding r by (cases cols) (auto simp: mult.commute)
  also have "\<dots> = map_option (\<lambda>cs. concat (map (colorOf fround bytes (point_step message) ?le ?cF) (filter ?acc [0..<?n]))) ?cols0"
    by (rule ck0)
  also have "\<dots> = map_option (\<lambda>colorField. concat (map (colorOfRecord fround message colorField) (acceptedRecords message))) ?cF"
    unfolding acc C by (cases ?cF) (simp_all add: colorOf_Some)
  finally show ?thesis using 1 2 by simp
qed


text \<open>
  Two records of three little-endian float32 coordinates and a packed uint32 color. The
  first record has \<open>z = NaN\<close>; the output is the second record alone.
\<close>

definition xyzrgb :: "PointField list" where
  "xyzrgb = [\<lparr>name = ''x'', offset = 0, field_datatype = 7, count = 1\<rparr>,
             \<lparr>name = ''y'', offset = 4, field_datatype = 7, count = 1\<rparr>,
             \<lparr>name = ''z'', offset = 8, field_datatype = 7, count = 1\<rparr>,
             \<lparr>name = ''rgb'', offset = 12, field_datatype = 6, count = 1\<rparr>]"

definition nanMessage :: PointCloud2Message where
  "nanMessage = \<lparr>header = None, height = 1, width = 2, fields' = xyzrgb,
     is_bigendian = Some False, point_step = 16, row_step = 32,
     data = Some ([0, 0, 0x80, 0x3f,  0, 0, 0x80, 0x3f,  0, 0, 0xc0, 0x7f,  0, 0, 0, 0,
                   0, 0, 0, 0x40,     0, 0, 0x80, 0x3f,  0, 0, 0, 0x40,     0x40, 0x80, 0xff, 0])\<rparr>"

lemma float32_of_bits_examples:
  "float32_of_bits 1065353216 = Num 1"
  "float32_of_bits 1073741824 = Num 2"
  "float32_of_bits 2143289344 = NaN"
  by (simp_all add: float32_of_bits_def)

lemma replicate6: "replicate 6 x = [x, x, x, x, x, x]"
  by (simp add: eval_nat_numeral)

lemma update6: "[a0, a1, a2, a3, a4, a5][0 := x, 1 := y, 2 := z] = [x, y, z, a3, a4, a5]"
  by (simp add: eval_nat_numeral)

definition nanResult :: ParsedPointCloud where
  "nanResult = \<lparr>id' = ''cloud'', frameId = ''map'',
                 positions = [Num 2, Num 1, Num 2],
                 colors = Some [Num 1, Num (128 / 255), Num (64 / 255)]\<rparr>"

lemma nanMessage_accepted:
  "parsePointCloud2 (\<lambda>v. v) ''cloud'' nanMessage = Inr (Some nanResult)"
  by (simp add: nanMessage_def nanResult_def xyzrgb_def decoder_defs float32_of_bits_examples
        channel_eq DEFAULT_FRAME_def replicate6 update6)

lemma upt_0_2: "[0..<2] = [0, 1]"
  by (simp add: eval_nat_numeral)

lemma nanMessage_acceptedRecords: "acceptedRecords nanMessage = [1]"
  by (simp add: acceptedRecords_def recordAccepted_def recordXYZ_def nanMessage_def xyzrgb_def
        littleEndianOf_def readNumeric_def PointFieldType_defs DataView_defs
        float32_of_bits_examples upt_0_2)

theorem accepted_records_compacted_in_order_witness:
  "parsePointCloud2 (\<lambda>v. v) ''cloud'' nanMessage = Inr (Some nanResult) \<and>
   acceptedRecords nanMessage = [1] \<and>
   positionOfRecord (\<lambda>v. v) nanMessage 1 = [Num 2, Num 1, Num 2] \<and>
   length (positions nanResult) = 3 \<and>
   colors nanResult = Some (colorOfRecord (\<lambda>v. v) nanMessage (xyzrgb ! 3) 1)"
proof -
  note t = accepted_records_compacted_in_order [OF nanMessage_accepted]
  have c: "find isColorField (fields' nanMessage) = Some (xyzrgb ! 3)"
    by (simp add: nanMessage_def xyzrgb_def isColorField_def)
  from t have "positions nanResult = concat (map (positionOfRecord (\<lambda>v. v) nanMessage) [1])"
    unfolding nanMessage_acceptedRecords by (rule conjunct1)
  then have 1: "positionOfRecord (\<lambda>v. v) nanMessage 1 = [Num 2, Num 1, Num 2]"
    by (simp add: nanResult_def)
  from t have "length (positions nanResult) = 3 * length [1::nat]"
    unfolding nanMessage_acceptedRecords by blast
  then have 2: "length (positions nanResult) = 3"
    by simp
  from t have "colors nanResult =
      map_option (\<lambda>colorField. concat (map (colorOfRecord (\<lambda>v. v) nanMessage colorField) [1]))
        (find isColorField (fields' nanMessage))"
    unfolding nanMessage_acceptedRecords by blast
  then have 3: "colors nanResult = Some (colorOfRecord (\<lambda>v. v) nanMessage (xyzrgb ! 3) 1)"
    unfolding c by simp
  show ?thesis
    using nanMessage_accepted nanMessage_acceptedRecords 1 2 3 by blast
qed

subsection \<open>When the decoder declines, and when it raises\<close>

lemma parsePointCloud2_structurallyInvalid:
  "structurallyInvalid message \<Longrightarrow> parsePointCloud2 fround topic message = Inr None"
  by (auto simp: structurallyInvalid_def parsePointCloud2_def Let_def split: option.splits)

lemma parsePointCloud2_loop:
  assumes "\<not> structurallyInvalid message"
  obtains bytes xField yField zField where
    "data message = Some bytes"
    "find (\<lambda>field. name field = ''x'') (fields' message) = Some xField"
    "find (\<lambda>field. name field = ''y'') (fields' message) = Some yField"
    "find (\<lambda>field. name field = ''z'') (fields' message) = Some zField"
    "parsePointCloud2 fround topic message =
      (case parseLoop (decodeRecord fround bytes (point_step message) (littleEndianOf message)
                         xField yField zField (find isColorField (fields' message)))
              (width message * height message) 0
              (replicate (width message * height message * 3) (Num 0),
               (case find isColorField (fields' message) of None \<Rightarrow> None
                | Some cf \<Rightarrow> Some (replicate (width message * height message * 3) (Num 0))), 0) of
         Inl e \<Rightarrow> Inl e
       | Inr (pos, cols, validPoints) \<Rightarrow>
           if validPoints = 0 then Inr None
           else Inr (Some \<lparr>id' = topic,
                  frameId = orElse (normalizeFrame (headerFrame (header message))) DEFAULT_FRAME,
                  positions = (if validPoints * 3 = length pos then pos else take (validPoints * 3) pos),
                  colors = (case cols of
                      Some cs \<Rightarrow> if validPoints * 3 \<noteq> length cs then Some (take (validPoints * 3) cs)
                                 else Some cs
                    | None \<Rightarrow> None)\<rparr>))"
proof -
  from assms obtain bytes xField yField zField where
    f: "data message = Some bytes"
       "find (\<lambda>field. name field = ''x'') (fields' message) = Some xField"
       "find (\<lambda>field. name field = ''y'') (fields' message) = Some yField"
       "find (\<lambda>field. name field = ''z'') (fields' message) = Some zField"
    and n: "0 < width message * height message"
       "\<not> length bytes < point_step message * (width message * height message)"
    by (auto simp: structurallyInvalid_def split: option.splits)
  show ?thesis
    by (rule that [OF f]) (use n in \<open>simp add: parsePointCloud2_def f Let_def split: sum.splits prod.splits\<close>)
qed

lemma parsePointCloud2_no_result_iff:
  assumes "parsePointCloud2 fround topic message \<noteq> Inl RangeError"
  shows "parsePointCloud2 fround topic message = Inr None \<longleftrightarrow>
           structurallyInvalid message \<or> acceptedRecords message = []"
proof (cases "structurallyInvalid message")
  case True
  then show ?thesis by (simp add: parsePointCloud2_structurallyInvalid)
next
  case False
  then obtain bytes xF yF zF where
    f: "data message = Some bytes"
       "find (\<lambda>field. name field = ''x'') (fields' message) = Some xF"
       "find (\<lambda>field. name field = ''y'') (fields' message) = Some yF"
       "find (\<lambda>field. name field = ''z'') (fields' message) = Some zF"
    and p: "parsePointCloud2 fround topic message =
      (case parseLoop (decodeRecord fround bytes (point_step message) (littleEndianOf message)
                         xF yF zF (find isColorField (fields' message)))
              (width message * height message) 0
              (replicate (width message * height message * 3) (Num 0),
               (case find isColorField (fields' message) of None \<Rightarrow> None
                | Some cf \<Rightarrow> Some (replicate (width message * height message * 3) (Num 0))), 0) of
         Inl e \<Rightarrow> Inl e
       | Inr (pos, cols, validPoints) \<Rightarrow>
           if validPoints = 0 then Inr None
           else Inr (Some \<lparr>id' = topic,
                  frameId = orElse (normalizeFrame (headerFrame (header message))) DEFAULT_FRAME,
                  positions = (if validPoints * 3 = length pos then pos else take (validPoints * 3) pos),
                  colors = (case cols of
                      Some cs \<Rightarrow> if validPoints * 3 \<noteq> length cs then Some (take (validPoints * 3) cs)
                                 else Some cs
                    | None \<Rightarrow> None)\<rparr>))"
    by (rule parsePointCloud2_loop [where fround = fround and topic = topic])
  let ?n = "width message * height message"
  let ?cF = "find isColorField (fields' message)"
  let ?cols0 = "(case ?cF of None \<Rightarrow> None | Some cf \<Rightarrow> Some (replicate (?n * 3) (Num 0)))"
  let ?loop = "parseLoop (decodeRecord fround bytes (point_step message) (littleEndianOf message)
                         xF yF zF ?cF) ?n 0 (replicate (?n * 3) (Num 0), ?cols0, 0)"
  from assms p obtain pos cols vp where l: "?loop = Inr (pos, cols, vp)"
    by (cases ?loop) (auto, metis js_error.exhaust)
  have ok0: "colsOK ?cols0 ?cF ?n"
    by (simp add: colsOK_def split: option.splits)
  from parseLoop_invariant [OF l _ ok0]
  have "vp = length (acceptedRecords message)"
    by (simp add: acceptedRecords_def f)
  then show ?thesis
    using False p l by simp
qed

lemma accepted_has_accepted_record:
  assumes "parsePointCloud2 fround topic message = Inr (Some r)"
  shows "acceptedRecords message \<noteq> []"
  using parsePointCloud2_no_result_iff [of fround topic message] assms by auto

text \<open>
  Claim C4 says that the decoder never throws and returns no result exactly when the
  message is structurally invalid or no record has three finite coordinates. The lemma
  above is that equivalence for every call that does not raise. The call below does
  raise: the message has one record of three bytes, a buffer of exactly
  \<open>point_step * pointCount = 3\<close> bytes and all of \<open>x\<close>, \<open>y\<close>, \<open>z\<close>, but \<open>z\<close> is
  declared at offset 3, so \<open>getUint8\<close> reads past the view and the \<open>RangeError\<close>
  leaves \<open>parsePointCloud2\<close>, which checks the buffer length against
  \<open>point_step * pointCount\<close> only and never a field offset.
\<close>

definition overrunMessage :: PointCloud2Message where
  "overrunMessage = \<lparr>header = None, height = 1, width = 1,
     fields' = [\<lparr>name = ''x'', offset = 0, field_datatype = 2, count = 1\<rparr>,
                \<lparr>name = ''y'', offset = 1, field_datatype = 2, count = 1\<rparr>,
                \<lparr>name = ''z'', offset = 3, field_datatype = 2, count = 1\<rparr>],
     is_bigendian = None, point_step = 3, row_step = 3, data = Some [1, 2, 3]\<rparr>"

theorem parsePointCloud2_raises_on_field_past_buffer:
  "\<not> structurallyInvalid overrunMessage \<and>
   parsePointCloud2 (\<lambda>v. v) ''cloud'' overrunMessage = Inl RangeError"
  by (simp add: overrunMessage_def structurallyInvalid_def decoder_defs)

subsection \<open>Unsupported numeric types\<close>

lemma readNumeric_unsupported:
  "\<not> supported dt \<Longrightarrow> readNumeric view byteOffset dt littleEndian = Inr NaN"
  by (simp add: supported_def readNumeric_def)

lemma unsupported_never_accepted:
  assumes "\<not> supported (field_datatype xF) \<or> \<not> supported (field_datatype yF) \<or> \<not> supported (field_datatype zF)"
  shows "\<not> recordAccepted view step le xF yF zF i"
  using assms
  by (auto simp: recordAccepted_def recordXYZ_def readNumeric_unsupported split: sum.splits option.splits)

lemma unsupported_type_no_point_set:
  assumes "find (\<lambda>field. name field = ''x'') (fields' message) = Some xF"
      and "find (\<lambda>field. name field = ''y'') (fields' message) = Some yF"
      and "find (\<lambda>field. name field = ''z'') (fields' message) = Some zF"
      and "\<not> supported (field_datatype xF) \<or> \<not> supported (field_datatype yF) \<or> \<not> supported (field_datatype zF)"
  shows "parsePointCloud2 fround topic message = Inr None \<or>
         parsePointCloud2 fround topic message = Inl RangeError"
proof -
  have "acceptedRecords message = []"
    using assms(1-3) unsupported_never_accepted [OF assms(4)]
    by (simp add: acceptedRecords_def split: option.splits)
  then show ?thesis
    using parsePointCloud2_no_result_iff [of fround topic message] by blast
qed

text \<open>
  Claim C10 says that a message whose \<open>x\<close>, \<open>y\<close> or \<open>z\<close> field has a numeric type outside
  the eight supported ones is declined rather than crashing. The lemma above gives what
  the code guarantees: such a message never yields a point set. It can still raise:
  below \<open>x\<close> has the unknown type 9 and decodes to NaN without touching the buffer, but
  \<open>y\<close> is read next, at offset 3 of a three-byte buffer, and that read raises
  \<open>RangeError\<close> before the record is rejected.
\<close>

definition unsupportedMessage :: PointCloud2Message where
  "unsupportedMessage = \<lparr>header = None, height = 1, width = 1,
     fields' = [\<lparr>name = ''x'', offset = 0, field_datatype = 9, count = 1\<rparr>,
                \<lparr>name = ''y'', offset = 3, field_datatype = 2, count = 1\<rparr>,
                \<lparr>name = ''z'', offset = 2, field_datatype = 2, count = 1\<rparr>],
     is_bigendian = None, point_step = 3, row_step = 3, data = Some [1, 2, 3]\<rparr>"

theorem unsupported_type_can_still_raise:
  "\<not> supported 9 \<and> parsePointCloud2 (\<lambda>v. v) ''cloud'' unsupportedMessage = Inl RangeError"
  by (simp add: unsupportedMessage_def supported_def decoder_defs)


section \<open>Properties of the transform graph store\<close>

subsection \<open>One entry of a batch\<close>

lemma updateEntry_skipped:
  "entryChild t = None \<Longrightarrow> updateEntry ops (store, u) t = (store, u)"
  by (auto simp: updateEntry_def entryChild_def split: option.splits if_splits)

lemma updateEntry_keyed:
  assumes "entryChild t = Some child"
  shows "updateEntry ops (store, u) t =
           (if agrees ops store t then (store, u)
            else (AList.update child \<lparr>parent = entryParent t, matrix = composeMatrix ops t\<rparr> store, True))"
  using assms
  by (auto simp: updateEntry_def entryChild_def entryParent_def agrees_def Let_def
           split: option.splits if_splits)

subsection \<open>Running the store on the concrete batches\<close>

lemma three_real_literals [simp]:
  "lit0 three_real = 0" "lit1 three_real = 1"
  by (simp_all add: three_real_def)

lemma normalize_identity_rotation: "normalize three_real (0, 0, 0, 1) = (0, 0, 0, 1)"
  by (simp add: three_real_def quat_normalize_def)

lemma compose_translation:
  "compose three_real (x, y, z) (0, 0, 0, 1) (1, 1, 1) = translationMatrix x y z"
  unfolding three_real_def mat_compose_def translationMatrix_def Let_def by simp

lemma translated_fields [simp]:
  "header' (translated child parentFrame x y z) = Some \<lparr>frame_id = Some parentFrame\<rparr>"
  "child_frame_id (translated child parentFrame x y z) = Some child"
  by (simp_all add: translated_def)

lemma composeMatrix_translated:
  "composeMatrix three_real (translated child parentFrame x y z) = translationMatrix x y z"
  by (simp add: composeMatrix_def translated_def normalize_identity_rotation compose_translation)

lemma composeMatrix_default:
  "composeMatrix three_real \<lparr>header' = h, child_frame_id = c, transform = None\<rparr> =
     translationMatrix 0 0 0"
  by (simp add: composeMatrix_def normalize_identity_rotation compose_translation)

lemma mat_multiply_translations:
  "mat_multiply (translationMatrix a b c) (translationMatrix x y z) = translationMatrix (a + x) (b + y) (c + z)"
  by (simp add: mat_multiply_def translationMatrix_def)

lemma mat_IDENTITY_translation: "mat_IDENTITY = translationMatrix 0 0 0"
  by (simp add: mat_IDENTITY_def translationMatrix_def)

lemma mat_invert_translation:
  "mat_invert (translationMatrix x y z) = translationMatrix (- x) (- y) (- z)"
  by (simp add: mat_invert_def mat_determinant_def mat_adjugate_scaled_def det3_def translationMatrix_def)

lemma translationMatrix_eq [simp]:
  "translationMatrix a b c = translationMatrix x y z \<longleftrightarrow> a = x \<and> b = y \<and> c = z"
  by (simp add: translationMatrix_def)

lemma three_real_simps [simp]:
  "IDENTITY three_real = translationMatrix 0 0 0"
  "multiply three_real = mat_multiply"
  "invert three_real = mat_invert"
  by (simp_all add: three_real_def mat_IDENTITY_translation)

lemma scenarioStore_eq:
  "scenarioStore = \<lparr>dynamicTransforms =
      [(''B'', \<lparr>parent = Some ''A'', matrix = translationMatrix 0 0 0\<rparr>),
       (''C'', \<lparr>parent = Some ''B'', matrix = translationMatrix 1 0 0\<rparr>)],
     staticTransforms = []\<rparr>"
  by (simp add: scenarioStore_def update_def emptyStore_def scenarioMessage_def updateEntry_def
        composeMatrix_translated composeMatrix_default Let_def)

lemmas store_eval =
  buildPoseData_def collectFrameNames_def set_add_def addParent_def resolveFixed_def
  resolveWorldMatrix.simps poseStep_def lookupTransform_def Let_def update_conv'
  mat_multiply_translations mat_invert_translation






lemma selfLoopStore_eq:
  "selfLoopStore = \<lparr>dynamicTransforms =
      [(''A'', \<lparr>parent = Some ''A'', matrix = translationMatrix 1 0 0\<rparr>)],
     staticTransforms = []\<rparr>"
  by (simp add: selfLoopStore_def update_def emptyStore_def selfLoopMessage_def updateEntry_def
        composeMatrix_translated Let_def)

lemma selfLoop_lookup:
  "lookupTransform selfLoopStore ''A'' = Some \<lparr>parent = Some ''A'', matrix = translationMatrix 1 0 0\<rparr>"
  by (simp add: selfLoopStore_eq lookupTransform_def)

lemma matricesDiffer_three_real_self: "\<not> matricesDiffer three_real m m"
  by (simp add: matricesDiffer_def three_real_def list_ex_iff)

lemma scenario_consistent: "consistentBatch three_real (orElse (transforms scenarioMessage) [])"
  by (simp add: consistentBatch_def scenarioMessage_def entryChild_def sameEdge_def
        matricesDiffer_three_real_self)

subsection \<open>Running the store on a NaN translation\<close>

lemmas number_arith =
  zero_number_def one_number_def plus_number_def minus_number_def times_number_def
  divide_number_def

lemma three_js_simps:
  "lit0 three_js = Num 0" "lit1 three_js = Num 1"
  "IDENTITY three_js = Matrix4 (Num 1) (Num 0) (Num 0) (Num 0)  (Num 0) (Num 1) (Num 0) (Num 0)
                               (Num 0) (Num 0) (Num 1) (Num 0)  (Num 0) (Num 0) (Num 0) (Num 1)"
  "multiply three_js = Matrix4_multiply" "invert three_js = Matrix4_invert"
  by (simp_all add: three_js_def Matrix4_IDENTITY_def number_arith)

lemma normalize_default_rotation:
  "normalize three_js (Num 0, Num 0, Num 0, Num 1) = (Num 0, Num 0, Num 0, Num 1)"
  unfolding three_js_def Quaternion_normalize_def Let_def number_arith by simp

lemma compose_NaN_translation:
  "compose three_js (NaN, Num 0, Num 0) (Num 0, Num 0, Num 0, Num 1) (Num 1, Num 1, Num 1) =
     Matrix4 (Num 1) (Num 0) (Num 0) (Num 0)  (Num 0) (Num 1) (Num 0) (Num 0)
             (Num 0) (Num 0) (Num 1) (Num 0)  NaN (Num 0) (Num 0) (Num 1)"
  unfolding three_js_def Matrix4_compose_def Let_def number_arith by simp

lemma nanTransformStore_eq:
  "nanTransformStore = \<lparr>dynamicTransforms =
      [(''A'', \<lparr>parent = Some ''map'',
                matrix = Matrix4 (Num 1) (Num 0) (Num 0) (Num 0)  (Num 0) (Num 1) (Num 0) (Num 0)
                                 (Num 0) (Num 0) (Num 1) (Num 0)  NaN (Num 0) (Num 0) (Num 1)\<rparr>)],
     staticTransforms = []\<rparr>"
  by (simp add: nanTransformStore_def update_def nanTransformMessage_def updateEntry_def
        composeMatrix_def three_js_simps normalize_default_rotation compose_NaN_translation
        Let_def number_arith)

text \<open>
  The world matrix of \<open>A\<close>, identity times the local matrix: \<open>0 * NaN\<close> is NaN, so the
  whole last column is NaN. Its determinant is NaN, which is not \<open>=== 0\<close>, so is
  \<open>1 / det\<close> and every element of the inverse, and of the inverse times the matrix.
\<close>

lemma NaN_world:
  "Matrix4_multiply
     (Matrix4 (Num 1) (Num 0) (Num 0) (Num 0)  (Num 0) (Num 1) (Num 0) (Num 0)
              (Num 0) (Num 0) (Num 1) (Num 0)  (Num 0) (Num 0) (Num 0) (Num 1))
     (Matrix4 (Num 1) (Num 0) (Num 0) (Num 0)  (Num 0) (Num 1) (Num 0) (Num 0)
              (Num 0) (Num 0) (Num 1) (Num 0)  NaN (Num 0) (Num 0) (Num 1)) =
   Matrix4 (Num 1) (Num 0) (Num 0) (Num 0)  (Num 0) (Num 1) (Num 0) (Num 0)
           (Num 0) (Num 0) (Num 1) (Num 0)  NaN NaN NaN NaN"
  unfolding Matrix4_multiply_def number_arith by simp

lemma NaN_inverse:
  "Matrix4_invert
     (Matrix4 (Num 1) (Num 0) (Num 0) (Num 0)  (Num 0) (Num 1) (Num 0) (Num 0)
              (Num 0) (Num 0) (Num 1) (Num 0)  NaN NaN NaN NaN) =
   Matrix4 NaN NaN NaN NaN  NaN NaN NaN NaN  NaN NaN NaN NaN  NaN NaN NaN NaN"
  unfolding Matrix4_invert_def Let_def number_arith by simp

lemma NaN_product:
  "Matrix4_multiply
     (Matrix4 NaN NaN NaN NaN  NaN NaN NaN NaN  NaN NaN NaN NaN  NaN NaN NaN NaN)
     (Matrix4 (Num 1) (Num 0) (Num 0) (Num 0)  (Num 0) (Num 1) (Num 0) (Num 0)
              (Num 0) (Num 0) (Num 1) (Num 0)  NaN NaN NaN NaN) =
   Matrix4 NaN NaN NaN NaN  NaN NaN NaN NaN  NaN NaN NaN NaN  NaN NaN NaN NaN"
  unfolding Matrix4_multiply_def number_arith by simp

subsection \<open>resolveWorldMatrix on any edge set\<close>

lemma resolve_cached:
  "cache frame = Some m \<Longrightarrow> resolveWorldMatrix ops st frame cache stack = (Some m, cache)"
  by (subst resolveWorldMatrix.simps) simp

lemma resolve_in_stack:
  "cache frame = None \<Longrightarrow> frame \<in> stack \<Longrightarrow>
   resolveWorldMatrix ops st frame cache stack = (Some (IDENTITY ops), cache)"
  by (subst resolveWorldMatrix.simps) simp

lemma resolve_no_edge:
  "cache frame = None \<Longrightarrow> frame \<notin> stack \<Longrightarrow> lookupTransform st frame = None \<Longrightarrow>
   resolveWorldMatrix ops st frame cache stack = (Some (IDENTITY ops), cache(frame \<mapsto> IDENTITY ops))"
  by (subst resolveWorldMatrix.simps) simp

lemma resolve_root:
  "cache frame = None \<Longrightarrow> frame \<notin> stack \<Longrightarrow> lookupTransform st frame = Some t \<Longrightarrow>
   parent t = None \<or> parent t = Some [] \<or> parent t = Some frame \<Longrightarrow>
   resolveWorldMatrix ops st frame cache stack =
     (Some (multiply ops (IDENTITY ops) (matrix t)),
      cache(frame \<mapsto> multiply ops (IDENTITY ops) (matrix t)))"
  by (subst resolveWorldMatrix.simps) (auto simp: Let_def)

lemma resolve_child:
  "cache frame = None \<Longrightarrow> frame \<notin> stack \<Longrightarrow> lookupTransform st frame = Some t \<Longrightarrow>
   parent t = Some p \<Longrightarrow> p \<noteq> [] \<Longrightarrow> p \<noteq> frame \<Longrightarrow>
   resolveWorldMatrix ops st p cache (insert frame stack) = (res, cache1) \<Longrightarrow>
   resolveWorldMatrix ops st frame cache stack =
     (Some (multiply ops (orElse res (IDENTITY ops)) (matrix t)),
      cache1(frame \<mapsto> multiply ops (orElse res (IDENTITY ops)) (matrix t)))"
  by (subst resolveWorldMatrix.simps) (simp add: Let_def)

lemma map_le_fresh: "c k = None \<Longrightarrow> c \<subseteq>\<^sub>m c(k \<mapsto> v)"
  by (auto simp: map_le_def dom_def)

lemma map_le_fresh_trans: "c \<subseteq>\<^sub>m c1 \<Longrightarrow> c k = None \<Longrightarrow> c \<subseteq>\<^sub>m c1(k \<mapsto> v)"
  by (auto simp: map_le_def dom_def)

lemma resolve_general:
  "\<exists>m cache1. resolveWorldMatrix ops st frame cache stack = (Some m, cache1) \<and>
      cache \<subseteq>\<^sub>m cache1 \<and> (frame \<notin> stack \<longrightarrow> cache1 frame = Some m)"
proof (induction ops st frame cache stack rule: resolveWorldMatrix.induct)
  case (1 ops st frame cache stack)
  show ?case
  proof (cases "cache frame")
    case (Some m)
    then show ?thesis by (simp add: resolve_cached)
  next
    case None
    note c = None
    show ?thesis
    proof (cases "frame \<in> stack")
      case True
      then show ?thesis using c by (simp add: resolve_in_stack)
    next
      case False
      note s = False
      show ?thesis
      proof (cases "lookupTransform st frame")
        case None
        then show ?thesis using c s by (simp add: resolve_no_edge map_le_fresh)
      next
        case (Some t)
        show ?thesis
        proof (cases "parent t = None \<or> parent t = Some [] \<or> parent t = Some frame")
          case True
          then show ?thesis using c s Some resolve_root [where cache = cache and frame = frame and ops = ops, OF c s Some True]
            by (simp add: map_le_fresh)
        next
          case False
          then obtain p where p: "parent t = Some p" "p \<noteq> []" "p \<noteq> frame" by auto
          from "1.IH" [OF _ s Some p(1)] c p obtain m cache1 where
            r: "resolveWorldMatrix ops st p cache (insert frame stack) = (Some m, cache1)"
            and le: "cache \<subseteq>\<^sub>m cache1"
            by auto
          have "cache \<subseteq>\<^sub>m cache1(frame \<mapsto> multiply ops m (matrix t))"
            using le c by (rule map_le_fresh_trans)
          then show ?thesis
            using resolve_child [where cache = cache and frame = frame, OF c s Some p r] by simp
        qed
      qed
    qed
  qed
qed


lemma resolve_Some:
  obtains m cache1 where "resolveWorldMatrix ops st frame cache stack = (Some m, cache1)"
    "cache \<subseteq>\<^sub>m cache1" "frame \<notin> stack \<Longrightarrow> cache1 frame = Some m"
  using resolve_general [of ops st frame cache stack] by blast

subsection \<open>The loop of buildPoseData\<close>

text \<open>The \<open>relative\<close> matrix computed in the loop body.\<close>

definition relativeTo :: "('n, 'm) three \<Rightarrow> string option \<Rightarrow> 'm \<Rightarrow> 'm \<Rightarrow> 'm" where
  "relativeTo ops fixedFrame fixedInverse world =
     (if truthy fixedFrame then multiply ops fixedInverse world else world)"

lemma poseStep_empty_name: "poseStep ops st fixedFrame fixedInverse acc [] = acc"
  by (cases acc) (simp add: poseStep_def)

lemma poseStep_named:
  assumes "frameName \<noteq> []"
      and "resolveWorldMatrix ops st frameName worldCache {} = (Some world, worldCache1)"
  shows "poseStep ops st fixedFrame fixedInverse (poses, lookup, worldCache) frameName =
           (poses @ [\<lparr>pose_frameId = frameName,
                       pose_matrix = relativeTo ops fixedFrame fixedInverse world\<rparr>],
            AList.update frameName (relativeTo ops fixedFrame fixedInverse world) lookup,
            worldCache1)"
  using assms by (simp add: poseStep_def relativeTo_def Let_def)

lemma foldl_poseStep_names:
  "map pose_frameId (fst (foldl (poseStep ops st fixedFrame fixedInverse) (poses, lookup, worldCache) names)) =
     map pose_frameId poses @ filter (\<lambda>f. f \<noteq> []) names"
proof (induction names arbitrary: poses lookup worldCache)
  case Nil
  then show ?case by simp
next
  case (Cons n names)
  show ?case
  proof (cases "n = []")
    case True
    then show ?thesis using Cons.IH by (simp add: poseStep_empty_name)
  next
    case False
    obtain m c1 where r: "resolveWorldMatrix ops st n worldCache {} = (Some m, c1)"
      by (rule resolve_Some)
    show ?thesis
      using False Cons.IH by (simp add: poseStep_named [OF False r])
  qed
qed

lemma foldl_poseStep_cached:
  assumes "worldCache f = Some w" and "f \<noteq> []"
      and "f \<in> set names \<or> map_of lookup f = Some (relativeTo ops fixedFrame fixedInverse w)"
      and "\<forall>p\<in>set poses. pose_frameId p = f \<longrightarrow> pose_matrix p = relativeTo ops fixedFrame fixedInverse w"
  shows "map_of (fst (snd (foldl (poseStep ops st fixedFrame fixedInverse) (poses, lookup, worldCache) names))) f =
           Some (relativeTo ops fixedFrame fixedInverse w) \<and>
         (\<forall>p\<in>set (fst (foldl (poseStep ops st fixedFrame fixedInverse) (poses, lookup, worldCache) names)).
             pose_frameId p = f \<longrightarrow> pose_matrix p = relativeTo ops fixedFrame fixedInverse w)"
  using assms
proof (induction names arbitrary: poses lookup worldCache)
  case Nil
  then show ?case by simp
next
  case (Cons n names)
  show ?case
  proof (cases "n = []")
    case True
    then show ?thesis
      using Cons.IH [where worldCache = worldCache and lookup = lookup and poses = poses]
        Cons.prems
      by (auto simp: poseStep_empty_name)
  next
    case False
    obtain m c1 where r: "resolveWorldMatrix ops st n worldCache {} = (Some m, c1)"
      and le: "worldCache \<subseteq>\<^sub>m c1" and k: "c1 n = Some m"
      by (rule resolve_Some [of ops st n worldCache "{}"]) auto
    have c1: "c1 f = Some w"
      using le Cons.prems(1) by (auto simp: map_le_def dom_def)
    let ?rel = "relativeTo ops fixedFrame fixedInverse"
    have same: "n = f \<Longrightarrow> m = w" using k c1 by simp
    have a: "f \<in> set names \<or> map_of (AList.update n (?rel m) lookup) f = Some (?rel w)"
      using Cons.prems(3) same by (auto simp: update_conv')
    have b: "\<forall>p\<in>set (poses @ [\<lparr>pose_frameId = n, pose_matrix = ?rel m\<rparr>]).
               pose_frameId p = f \<longrightarrow> pose_matrix p = ?rel w"
      using Cons.prems(4) same by auto
    from Cons.IH [where worldCache = c1, OF c1 Cons.prems(2) a b] show ?thesis
      by (simp add: poseStep_named [OF False r])
  qed
qed

lemma set_set_add: "set (set_add names n) = insert n (set names)"
  by (auto simp: set_add_def)

lemma fixedFrame_collected:
  "f \<noteq> [] \<Longrightarrow> f \<in> set (collectFrameNames st (Some f))"
  by (simp add: collectFrameNames_def Let_def set_set_add)

lemma resolveFixed_cached:
  assumes "f \<noteq> []"
  shows "snd (resolveFixed ops st (Some f)) f = Some (fst (resolveFixed ops st (Some f)))"
proof -
  obtain m c1 where r: "resolveWorldMatrix ops st f Map.empty {} = (Some m, c1)"
    and k: "c1 f = Some m"
    by (rule resolve_Some [of ops st f Map.empty "{}"]) auto
  show ?thesis
    using assms r k by (simp add: resolveFixed_def)
qed

subsection \<open>A frame relative to itself\<close>

text \<open>
  The world matrix \<open>W\<close> of the fixed frame is resolved once before the loop and found
  again in the cache inside the loop, so the loop computes \<open>invert(W) \<times> W\<close> for it.
\<close>

lemma fixedFrame_pose:
  assumes "f \<noteq> []"
  shows "map_of (matrixMap (buildPoseData ops st (Some f))) f =
           Some (relativeTo ops (Some f) (invert ops (fst (resolveFixed ops st (Some f))))
                            (fst (resolveFixed ops st (Some f)))) \<and>
         (\<forall>p\<in>set (frames (buildPoseData ops st (Some f))).
             pose_frameId p = f \<longrightarrow>
             pose_matrix p = relativeTo ops (Some f) (invert ops (fst (resolveFixed ops st (Some f))))
                                        (fst (resolveFixed ops st (Some f))))"
proof -
  let ?W = "fst (resolveFixed ops st (Some f))"
  let ?c = "snd (resolveFixed ops st (Some f))"
  let ?names = "collectFrameNames st (Some f)"
  let ?out = "foldl (poseStep ops st (Some f) (invert ops ?W)) ([], [], ?c) ?names"
  have "map_of (fst (snd ?out)) f = Some (relativeTo ops (Some f) (invert ops ?W) ?W) \<and>
        (\<forall>p\<in>set (fst ?out). pose_frameId p = f \<longrightarrow>
            pose_matrix p = relativeTo ops (Some f) (invert ops ?W) ?W)"
    by (rule foldl_poseStep_cached)
       (use assms in \<open>simp_all add: resolveFixed_cached fixedFrame_collected\<close>)
  then show ?thesis
    by (simp add: buildPoseData_def Let_def)
qed

lemma fixedFrame_listed:
  assumes "f \<noteq> []"
  shows "f \<in> set (map pose_frameId (frames (buildPoseData ops st (Some f))))"
proof -
  let ?W = "fst (resolveFixed ops st (Some f))"
  let ?c = "snd (resolveFixed ops st (Some f))"
  let ?names = "collectFrameNames st (Some f)"
  let ?out = "foldl (poseStep ops st (Some f) (invert ops ?W)) ([], [], ?c) ?names"
  have "map pose_frameId (fst ?out) = filter (\<lambda>f. f \<noteq> []) ?names"
    using foldl_poseStep_names [of ops st "Some f" "invert ops ?W" "[]" "[]" ?c ?names] by simp
  then show ?thesis
    using assms fixedFrame_collected [OF assms, of st]
    by (simp add: buildPoseData_def Let_def)
qed

text \<open>
  In exact arithmetic \<open>invert(W) \<times> W\<close> is the identity for every rigid \<open>W\<close>; every
  matrix \<open>composeMatrix\<close> builds is rigid, products of rigid matrices are rigid, so every
  store the class can be in is rigid and so is every world matrix resolved from it.
\<close>

lemma rigid_identity: "rigid mat_IDENTITY"
  by (simp add: rigid_def mat_IDENTITY_def det3_def)

lemma det3_product:
  "det3 (a0 * b0 + a4 * b1 + a8 * b2) (a0 * b4 + a4 * b5 + a8 * b6) (a0 * b8 + a4 * b9 + a8 * b10)
        (a1 * b0 + a5 * b1 + a9 * b2) (a1 * b4 + a5 * b5 + a9 * b6) (a1 * b8 + a5 * b9 + a9 * b10)
        (a2 * b0 + a6 * b1 + a10 * b2) (a2 * b4 + a6 * b5 + a10 * b6) (a2 * b8 + a6 * b9 + a10 * b10)
   = det3 a0 a4 a8 a1 a5 a9 a2 a6 a10 * det3 b0 b4 b8 b1 b5 b9 b2 b6 b10"
  unfolding det3_def by algebra

lemma rigid_multiply:
  assumes "rigid a" and "rigid b"
  shows "rigid (mat_multiply a b)"
proof (cases a)
  case A: (Mat4 a0 a1 a2 a3 a4 a5 a6 a7 a8 a9 a10 a11 a12 a13 a14 a15)
  show ?thesis
  proof (cases b)
    case B: (Mat4 b0 b1 b2 b3 b4 b5 b6 b7 b8 b9 b10 b11 b12 b13 b14 b15)
    from assms have z: "a3 = 0" "a7 = 0" "a11 = 0" "a15 = 1" "b3 = 0" "b7 = 0" "b11 = 0" "b15 = 1"
      and d: "det3 a0 a4 a8 a1 a5 a9 a2 a6 a10 = 1" "det3 b0 b4 b8 b1 b5 b9 b2 b6 b10 = 1"
      by (simp_all add: rigid_def A B)
    show ?thesis
      unfolding A B mat_multiply_def rigid_def
      by (simp add: z det3_product d)
  qed
qed

lemma rigid_determinant:
  assumes "rigid m"
  shows "mat_determinant m = 1"
proof (cases m)
  case M: (Mat4 n0 n1 n2 n3 n4 n5 n6 n7 n8 n9 n10 n11 n12 n13 n14 n15)
  from assms have z: "n3 = 0" "n7 = 0" "n11 = 0" "n15 = 1"
    and d: "det3 n0 n4 n8 n1 n5 n9 n2 n6 n10 = 1"
    by (simp_all add: rigid_def M)
  have "mat_determinant m = det3 n0 n4 n8 n1 n5 n9 n2 n6 n10"
    unfolding M mat_determinant_def z by (simp add: det3_def algebra_simps)
  then show ?thesis using d by simp
qed


lemma rigid_invert_left:
  assumes "rigid m"
  shows "mat_multiply (mat_invert m) m = mat_IDENTITY"
proof (cases m)
  case M: (Mat4 n0 n1 n2 n3 n4 n5 n6 n7 n8 n9 n10 n11 n12 n13 n14 n15)
  from assms have z: "n3 = 0" "n7 = 0" "n11 = 0" "n15 = 1"
    and d: "det3 n0 n4 n8 n1 n5 n9 n2 n6 n10 = 1"
    by (simp_all add: rigid_def M)
  let ?D = "det3 n0 n4 n8 n1 n5 n9 n2 n6 n10"
  have inv: "mat_invert m = mat_adjugate_scaled 1 m"
    using rigid_determinant [OF assms] by (simp add: mat_invert_def)
  have "mat_multiply (mat_adjugate_scaled 1 m) m = Mat4 ?D 0 0 0  0 ?D 0 0  0 0 ?D 0  0 0 0 ?D"
    unfolding M z mat_adjugate_scaled_def mat_multiply_def
    by (simp add: det3_def algebra_simps)
  then show ?thesis
    unfolding inv d by (simp add: mat_IDENTITY_def)
qed

lemma inverse_sqrt_squared:
  fixes s :: real
  assumes "0 \<le> s" and "sqrt s \<noteq> 0"
  shows "(1 / sqrt s) * (1 / sqrt s) * s = 1"
proof -
  have r: "sqrt s * sqrt s = s" using assms(1) by simp
  then have "(1 / sqrt s) * (1 / sqrt s) * (sqrt s * sqrt s) = 1"
    using assms(2) by (simp add: field_simps)
  then show ?thesis using r by simp
qed

lemma scaled_quaternion_unit:
  fixes a b c d k :: real
  assumes "k * k * (a * a + b * b + c * c + d * d) = 1"
  shows "(a * k) * (a * k) + (b * k) * (b * k) + (c * k) * (c * k) + (d * k) * (d * k) = 1"
  using assms by algebra

lemma quat_normalize_unit:
  assumes "quat_normalize q = (x, y, z, w)"
  shows "x * x + y * y + z * z + w * w = 1"
proof -
  obtain a b c d where q: "q = (a, b, c, d)" by (cases q)
  let ?s = "a * a + b * b + c * c + d * d"
  show ?thesis
  proof (cases "sqrt ?s = 0")
    case True
    then show ?thesis using assms by (simp add: quat_normalize_def q)
  next
    case False
    have k: "(1 / sqrt ?s) * (1 / sqrt ?s) * ?s = 1"
      by (rule inverse_sqrt_squared [OF _ False]) simp
    from False assms have e: "x = a * (1 / sqrt ?s)" "y = b * (1 / sqrt ?s)"
       "z = c * (1 / sqrt ?s)" "w = d * (1 / sqrt ?s)"
      by (simp_all add: quat_normalize_def q Let_def)
    show ?thesis
      unfolding e by (rule scaled_quaternion_unit [OF k])
  qed
qed

lemma rigid_compose_unit:
  assumes "x * x + y * y + z * z + w * w = (1::real)"
  shows "rigid (mat_compose t (x, y, z, w) (1, 1, 1))"
proof -
  obtain px py pz where t: "t = (px, py, pz)" by (cases t)
  have "det3 (1 - ((y * (y + y)) + (z * (z + z)))) (x * (y + y) - w * (z + z)) (x * (z + z) + w * (y + y))
             (x * (y + y) + w * (z + z)) (1 - (x * (x + x) + z * (z + z))) (y * (z + z) - w * (x + x))
             (x * (z + z) - w * (y + y)) (y * (z + z) + w * (x + x)) (1 - (x * (x + x) + y * (y + y))) = 1"
    unfolding det3_def using assms by algebra
  then show ?thesis
    unfolding t mat_compose_def rigid_def Let_def by simp
qed


lemma three_real_compose_normalize:
  "compose three_real = mat_compose" "normalize three_real = quat_normalize"
  by (simp_all add: three_real_def)

lemma composeMatrix_three_real_rigid: "rigid (composeMatrix three_real t)"
proof -
  have "\<exists>tr q. composeMatrix three_real t = mat_compose tr (quat_normalize q) (1, 1, 1)"
    unfolding composeMatrix_def Let_def three_real_compose_normalize three_real_literals
    by blast
  then obtain tr q where c: "composeMatrix three_real t = mat_compose tr (quat_normalize q) (1, 1, 1)"
    by blast
  obtain x y z w where n: "quat_normalize q = (x, y, z, w)"
    by (cases "quat_normalize q")
  show ?thesis
    unfolding c n by (rule rigid_compose_unit [OF quat_normalize_unit [OF n]])
qed

lemma set_AList_update:
  "e \<in> set (AList.update k v al) \<Longrightarrow> e = (k, v) \<or> e \<in> set al"
  by (induction al) (auto split: if_splits)

lemma updateEntry_rigid:
  assumes "\<forall>e\<in>set store. rigid (matrix (snd e))"
  shows "\<forall>e\<in>set (fst (updateEntry three_real (store, u) t)). rigid (matrix (snd e))"
proof (cases "entryChild t")
  case None
  then show ?thesis using assms by (simp add: updateEntry_skipped)
next
  case (Some child)
  show ?thesis
    using assms composeMatrix_three_real_rigid [of t]
    by (auto simp: updateEntry_keyed [OF Some] dest!: set_AList_update)
qed

lemma foldl_updateEntry_rigid:
  assumes "\<forall>e\<in>set store. rigid (matrix (snd e))"
  shows "\<forall>e\<in>set (fst (foldl (updateEntry three_real) (store, u) ts)). rigid (matrix (snd e))"
  using assms
proof (induction ts arbitrary: store u)
  case Nil
  then show ?case by simp
next
  case (Cons t ts)
  obtain store1 u1 where s1: "updateEntry three_real (store, u) t = (store1, u1)"
    by (cases "updateEntry three_real (store, u) t")
  have "\<forall>e\<in>set store1. rigid (matrix (snd e))"
    using updateEntry_rigid [OF Cons.prems, of u t] by (simp add: s1)
  from Cons.IH [OF this, of u1] show ?case by (simp add: s1)
qed

lemma rigidStore_emptyStore: "rigidStore emptyStore"
  by (simp add: rigidStore_def emptyStore_def)

lemma rigidStore_update:
  assumes "rigidStore st"
  shows "rigidStore (fst (update three_real st message isStatic))"
proof (cases isStatic)
  case True
  have "\<forall>e\<in>set (fst (foldl (updateEntry three_real) (staticTransforms st, False)
                          (orElse (transforms message) []))). rigid (matrix (snd e))"
    by (rule foldl_updateEntry_rigid) (use assms in \<open>simp add: rigidStore_def list_all_iff\<close>)
  then show ?thesis
    using assms True by (auto simp: rigidStore_def list_all_iff update_def Let_def)
next
  case False
  have "\<forall>e\<in>set (fst (foldl (updateEntry three_real) (dynamicTransforms st, False)
                          (orElse (transforms message) []))). rigid (matrix (snd e))"
    by (rule foldl_updateEntry_rigid) (use assms in \<open>simp add: rigidStore_def list_all_iff\<close>)
  then show ?thesis
    using assms False by (auto simp: rigidStore_def list_all_iff update_def Let_def)
qed

lemma rigidStore_resetDynamic: "rigidStore st \<Longrightarrow> rigidStore (resetDynamic st)"
  by (simp add: rigidStore_def resetDynamic_def)

lemma rigidStore_lookup:
  assumes "rigidStore st" and "lookupTransform st f = Some t"
  shows "rigid (matrix t)"
proof -
  from assms(2) have "(f, t) \<in> set (dynamicTransforms st @ staticTransforms st)"
    by (auto simp: lookupTransform_def split: option.splits dest: map_of_SomeD)
  moreover have "\<forall>e\<in>set (dynamicTransforms st @ staticTransforms st). rigid (matrix (snd e))"
    using assms(1) by (simp add: rigidStore_def list_all_iff)
  ultimately have "rigid (matrix (snd (f, t)))"
    by blast
  then show ?thesis by simp
qed

lemma resolve_preserves:
  assumes "P (IDENTITY ops)" and "\<And>a b. P a \<Longrightarrow> P b \<Longrightarrow> P (multiply ops a b)"
      and "\<And>f t. lookupTransform st f = Some t \<Longrightarrow> P (matrix t)"
  shows "(\<forall>f m. cache f = Some m \<longrightarrow> P m) \<Longrightarrow>
         resolveWorldMatrix ops st frame cache stack = (Some m, cache1) \<Longrightarrow>
         P m \<and> (\<forall>f m'. cache1 f = Some m' \<longrightarrow> P m')"
  using assms
proof (induction ops st frame cache stack arbitrary: m cache1 rule: resolveWorldMatrix.induct)
  case (1 ops st frame cache stack)
  note I = "1.prems"(3) and M = "1.prems"(4) and L = "1.prems"(5)
  show ?case
  proof (cases "cache frame")
    case (Some m0)
    then show ?thesis using "1.prems"(1,2) by (auto simp: resolve_cached)
  next
    case None
    note c = None
    show ?thesis
    proof (cases "frame \<in> stack")
      case True
      then show ?thesis using c "1.prems"(1,2) I by (auto simp: resolve_in_stack)
    next
      case False
      note s = False
      show ?thesis
      proof (cases "lookupTransform st frame")
        case None
        then show ?thesis using c s "1.prems"(1,2) I by (auto simp: resolve_no_edge split: if_splits)
      next
        case (Some t)
        show ?thesis
        proof (cases "parent t = None \<or> parent t = Some [] \<or> parent t = Some frame")
          case True
          have "P (multiply ops (IDENTITY ops) (matrix t))"
            by (rule M [OF I L [OF Some]])
          then show ?thesis
            using resolve_root [where cache = cache and frame = frame and ops = ops, OF c s Some True]
              "1.prems"(1,2)
            by (auto split: if_splits)
        next
          case False
          then obtain p where p: "parent t = Some p" "p \<noteq> []" "p \<noteq> frame" by auto
          obtain m1 c1 where r: "resolveWorldMatrix ops st p cache (insert frame stack) = (Some m1, c1)"
            by (rule resolve_Some)
          have c': "\<not> cache frame \<noteq> None" using c by simp
          have q: "p \<noteq> [] \<and> p \<noteq> frame" using p by simp
          have ih: "P m1 \<and> (\<forall>f m'. c1 f = Some m' \<longrightarrow> P m')"
            by (rule "1.IH" [OF c' s Some p(1) q "1.prems"(1) r I M L])
          have "P (multiply ops m1 (matrix t))"
            by (rule M [OF _ L [OF Some]]) (use ih in simp)
          then show ?thesis
            using resolve_child [where cache = cache and frame = frame, OF c s Some p r]
              "1.prems"(2) ih
            by (auto split: if_splits)
        qed
      qed
    qed
  qed
qed

lemma fixedWorld_rigid:
  assumes "rigidStore st"
  shows "rigid (fst (resolveFixed three_real st fixedFrame))"
proof (cases "truthy fixedFrame")
  case False
  then show ?thesis
    using rigid_identity by (cases fixedFrame) (simp_all add: resolveFixed_def three_real_def)
next
  case True
  then obtain f where f: "fixedFrame = Some f" "f \<noteq> []" by (cases fixedFrame) auto
  obtain m c1 where r: "resolveWorldMatrix three_real st f Map.empty {} = (Some m, c1)"
    by (rule resolve_Some)
  have "rigid m \<and> (\<forall>g m'. c1 g = Some m' \<longrightarrow> rigid m')"
  proof (rule resolve_preserves [where P = rigid and ops = three_real and st = st, OF _ _ _ _ r])
    show "rigid (IDENTITY three_real)" using rigid_identity by (simp add: three_real_def)
    show "\<And>a b. rigid a \<Longrightarrow> rigid b \<Longrightarrow> rigid (multiply three_real a b)"
      by (simp add: rigid_multiply)
    show "\<And>f t. lookupTransform st f = Some t \<Longrightarrow> rigid (matrix t)"
      by (rule rigidStore_lookup [OF assms])
    show "\<forall>f m. Map.empty f = Some m \<longrightarrow> rigid m" by simp
  qed
  then show ?thesis using f r by (simp add: resolveFixed_def)
qed

lemma fixedWorld_left_inverse:
  assumes "rigidStore st"
  shows "multiply three_real (invert three_real (fst (resolveFixed three_real st fixedFrame)))
           (fst (resolveFixed three_real st fixedFrame)) = IDENTITY three_real"
  using rigid_invert_left [OF fixedWorld_rigid [OF assms, of fixedFrame]]
  by (simp add: mat_IDENTITY_translation)


lemma rigidStore_clearAll: "rigidStore (clearAll st)"
  by (simp add: rigidStore_def clearAll_def)

lemma reachable_rigidStore: "reachable st \<Longrightarrow> rigidStore st"
  by (induction rule: reachable.induct)
     (simp_all add: rigidStore_emptyStore rigidStore_update rigidStore_resetDynamic rigidStore_clearAll)

text \<open>
  Over the reals, for every rigid store, hence for every store state the class can be
  in, and every non-empty frame name \<open>f\<close>, the pose of \<open>f\<close> relative to \<open>f\<close> is
  the identity matrix. This is a fact of exact arithmetic, not of the program, whose
  numbers are IEEE doubles.
\<close>

lemma fixed_frame_identity_in_exact_arithmetic:
  assumes "rigidStore st" and "f \<noteq> []"
  shows "map_of (matrixMap (buildPoseData three_real st (Some f))) f = Some (IDENTITY three_real) \<and>
         (\<forall>p\<in>set (frames (buildPoseData three_real st (Some f))).
             pose_frameId p = f \<longrightarrow> pose_matrix p = IDENTITY three_real)"
  using fixedFrame_pose [OF assms(2), of three_real st] assms(2)
  unfolding relativeTo_def fixedWorld_left_inverse [OF assms(1)] by simp

text \<open>
  Claim C7 as stated says that the pose of \<open>F\<close> relative to \<open>F\<close> is always the
  identity matrix. With the one edge \<open>A \<rightarrow> map\<close> whose translation has \<open>x = NaN\<close>
  (\<open>translation?.x ?? 0\<close> keeps NaN) and fixed frame \<open>A\<close>, every element of the pose
  returned for \<open>A\<close> is NaN.
\<close>

theorem fixed_frame_pose_is_NaN_on_NaN_translation:
  "map_of (matrixMap (buildPoseData three_js nanTransformStore (Some ''A''))) ''A'' =
     Some (Matrix4 NaN NaN NaN NaN  NaN NaN NaN NaN  NaN NaN NaN NaN  NaN NaN NaN NaN) \<and>
   Matrix4 NaN NaN NaN NaN  NaN NaN NaN NaN  NaN NaN NaN NaN  NaN NaN NaN NaN \<noteq> IDENTITY three_js"
  by (simp add: buildPoseData_def collectFrameNames_def set_add_def addParent_def resolveFixed_def
        resolveWorldMatrix.simps poseStep_def lookupTransform_def Let_def update_conv'
        nanTransformStore_eq three_js_simps NaN_world NaN_inverse NaN_product)

text \<open>
  Claim C7, as amended. For every implementation of the three.js operations, every
  store (with or without cycles) and every non-empty frame name \<open>f\<close>, \<open>buildPoseData\<close>
  with fixed frame \<open>f\<close> lists \<open>f\<close> and gives it, in the lookup table and in the list
  of poses, the matrix \<open>invert(W) \<times> W\<close>, where \<open>W\<close> is the world matrix resolved for
  \<open>f\<close>. The pose is the identity matrix where, and only where, that product is.
\<close>

theorem fixed_frame_pose_is_inverse_times_world:
  assumes "f \<noteq> []"
  shows "map_of (matrixMap (buildPoseData ops st (Some f))) f =
           Some (multiply ops (invert ops (fst (resolveFixed ops st (Some f))))
                              (fst (resolveFixed ops st (Some f)))) \<and>
         f \<in> set (map pose_frameId (frames (buildPoseData ops st (Some f)))) \<and>
         (\<forall>p\<in>set (frames (buildPoseData ops st (Some f))).
             pose_frameId p = f \<longrightarrow>
             pose_matrix p = multiply ops (invert ops (fst (resolveFixed ops st (Some f))))
                                          (fst (resolveFixed ops st (Some f))))"
  using fixedFrame_pose [OF assms, of ops st] fixedFrame_listed [OF assms, of ops st] assms
  by (simp add: relativeTo_def)

text \<open>
  In the store holding \<open>B \<rightarrow> A\<close> (identity) and \<open>C \<rightarrow> B\<close> (translation by 1 along x),
  the world matrix of \<open>C\<close> is the translation by 1 along x, and \<open>C\<close> relative to \<open>C\<close>
  is its inverse times it, the identity matrix.
\<close>

theorem fixed_frame_pose_is_inverse_times_world_witness:
  "fst (resolveFixed three_real scenarioStore (Some ''C'')) = Mat4 1 0 0 0  0 1 0 0  0 0 1 0  1 0 0 1 \<and>
   map_of (matrixMap (buildPoseData three_real scenarioStore (Some ''C''))) ''C'' =
     Some (Mat4 1 0 0 0  0 1 0 0  0 0 1 0  0 0 0 1)"
proof -
  have w: "fst (resolveFixed three_real scenarioStore (Some ''C'')) = translationMatrix 1 0 0"
    by (simp add: store_eval scenarioStore_eq)
  have "map_of (matrixMap (buildPoseData three_real scenarioStore (Some ''C''))) ''C'' =
          Some (translationMatrix 0 0 0)"
    using fixed_frame_pose_is_inverse_times_world [of "''C''" three_real scenarioStore]
    by (simp add: w mat_multiply_translations mat_invert_translation)
  then show ?thesis
    using w by (simp add: translationMatrix_def)
qed

subsection \<open>Cycles\<close>

text \<open>
  Claim C2 as stated says that every frame reachable only through a cycle resolves to
  the identity matrix. A frame \<open>A\<close> whose parent is \<open>A\<close> itself and whose local
  transform is the translation by 1 along x is such a frame; relative to the fixed
  frame \<open>map\<close>, which has no edge, it resolves to that translation, not to identity.
\<close>

theorem self_parent_frame_is_not_identity:
  "map_of (matrixMap (buildPoseData three_real selfLoopStore (Some ''map''))) ''A'' =
     Some (translationMatrix 1 0 0) \<and>
   translationMatrix 1 0 0 \<noteq> IDENTITY three_real"
  by (simp add: store_eval selfLoopStore_eq)

text \<open>
  Claim C2, as amended. On every edge set, with or without cycles, \<open>resolveWorldMatrix\<close>
  returns a matrix (never \<open>undefined\<close>, and its recursion terminates: that is the
  termination proof of the function) and \<open>buildPoseData\<close> returns one pose for every
  non-empty collected frame name. A frame that is entered again while its own
  resolution is in progress yields identity at that point and is not cached; a frame
  that names itself as parent gets identity as parent matrix, so that its world matrix
  is identity times its own local matrix, not identity.
\<close>

theorem resolve_always_returns_and_cuts_at_reentry:
  "(\<exists>m cache1. resolveWorldMatrix ops st frame cache stack = (Some m, cache1)) \<and>
   map pose_frameId (frames (buildPoseData ops st fixedFrame)) =
     filter (\<lambda>f. f \<noteq> []) (collectFrameNames st fixedFrame) \<and>
   (cache frame = None \<and> frame \<in> stack \<longrightarrow>
      resolveWorldMatrix ops st frame cache stack = (Some (IDENTITY ops), cache)) \<and>
   (cache frame = None \<and> frame \<notin> stack \<and> lookupTransform st frame = Some t \<and>
    parent t = Some frame \<longrightarrow>
      fst (resolveWorldMatrix ops st frame cache stack) =
        Some (multiply ops (IDENTITY ops) (matrix t)))"
proof -
  have 1: "\<exists>m cache1. resolveWorldMatrix ops st frame cache stack = (Some m, cache1)"
    using resolve_general [of ops st frame cache stack] by blast
  have 2: "map pose_frameId (frames (buildPoseData ops st fixedFrame)) =
     filter (\<lambda>f. f \<noteq> []) (collectFrameNames st fixedFrame)"
    by (simp add: buildPoseData_def Let_def foldl_poseStep_names)
  have 3: "cache frame = None \<and> frame \<in> stack \<longrightarrow>
      resolveWorldMatrix ops st frame cache stack = (Some (IDENTITY ops), cache)"
    by (simp add: resolve_in_stack)
  have 4: "cache frame = None \<and> frame \<notin> stack \<and> lookupTransform st frame = Some t \<and>
    parent t = Some frame \<longrightarrow>
      fst (resolveWorldMatrix ops st frame cache stack) =
        Some (multiply ops (IDENTITY ops) (matrix t))"
    using resolve_root [where cache = cache and frame = frame and stack = stack and st = st and t = t and ops = ops]
    by auto
  show ?thesis
    using 1 2 3 4 by blast
qed

theorem resolve_always_returns_and_cuts_at_reentry_witness:
  "resolveWorldMatrix three_real selfLoopStore ''A'' Map.empty {''A''} =
     (Some (translationMatrix 0 0 0), Map.empty) \<and>
   fst (resolveWorldMatrix three_real selfLoopStore ''A'' Map.empty {}) =
     Some (translationMatrix 1 0 0) \<and>
   map pose_frameId (frames (buildPoseData three_real selfLoopStore (Some ''map''))) = [''A'', ''map'']"
proof -
  let ?t = "\<lparr>parent = Some ''A'', matrix = translationMatrix 1 0 0\<rparr>"
  have names: "collectFrameNames selfLoopStore (Some ''map'') = [''A'', ''map'']"
    by (simp add: collectFrameNames_def selfLoopStore_eq set_add_def addParent_def Let_def)
  have 1: "resolveWorldMatrix three_real selfLoopStore ''A'' Map.empty {''A''} =
     (Some (translationMatrix 0 0 0), Map.empty)"
    using resolve_always_returns_and_cuts_at_reentry
            [of three_real selfLoopStore "''A''" Map.empty "{''A''}" "Some ''map''" ?t]
    by simp
  have 2: "fst (resolveWorldMatrix three_real selfLoopStore ''A'' Map.empty {}) =
     Some (translationMatrix 1 0 0)"
    using resolve_always_returns_and_cuts_at_reentry
            [of three_real selfLoopStore "''A''" Map.empty "{}" "Some ''map''" ?t]
    by (simp add: selfLoop_lookup mat_multiply_translations)
  have 3: "map pose_frameId (frames (buildPoseData three_real selfLoopStore (Some ''map''))) = [''A'', ''map'']"
    using resolve_always_returns_and_cuts_at_reentry
            [of three_real selfLoopStore "''A''" Map.empty "{}" "Some ''map''" ?t]
    by (simp add: names)
  show ?thesis using 1 2 3 by blast
qed

subsection \<open>buildPoseData against the specification's world matrix\<close>




























subsection \<open>update, applied twice\<close>

lemma updateEntry_agrees:
  assumes "entryChild t = None \<or> sameEdge ops t t"
  shows "agrees ops (fst (updateEntry ops (store, u) t)) t"
proof (cases "entryChild t")
  case None
  then show ?thesis by (simp add: agrees_def)
next
  case (Some child)
  with assms have "\<not> matricesDiffer ops (composeMatrix ops t) (composeMatrix ops t)"
    by (simp add: sameEdge_def)
  then show ?thesis
    using Some by (simp add: updateEntry_keyed) (simp add: agrees_def update_conv')
qed

lemma updateEntry_keeps_agreement:
  assumes "agrees ops store d"
      and "entryChild t = None \<or> entryChild t \<noteq> entryChild d \<or> sameEdge ops t d"
  shows "agrees ops (fst (updateEntry ops (store, u) t)) d"
proof (cases "entryChild t")
  case None
  then show ?thesis using assms(1) by (simp add: updateEntry_skipped)
next
  case (Some child)
  show ?thesis
  proof (cases "agrees ops store t")
    case True
    then show ?thesis using Some assms(1) by (simp add: updateEntry_keyed)
  next
    case False
    show ?thesis
    proof (cases "entryChild d = Some child")
      case True
      with Some assms(2) have "sameEdge ops t d" by simp
      then show ?thesis
        using Some False True by (simp add: updateEntry_keyed agrees_def update_conv' sameEdge_def)
    next
      case ne: False
      then show ?thesis
        using Some False assms(1)
        by (auto simp: updateEntry_keyed agrees_def update_conv' split: option.splits)
    qed
  qed
qed

lemma foldl_updateEntry_agrees:
  assumes "\<forall>t1\<in>set ts. \<forall>t2\<in>set (ds @ ts). entryChild t1 = None \<or> entryChild t1 \<noteq> entryChild t2 \<or> sameEdge ops t1 t2"
      and "\<forall>d\<in>set ds. agrees ops store d"
  shows "\<forall>d\<in>set (ds @ ts). agrees ops (fst (foldl (updateEntry ops) (store, u) ts)) d"
  using assms
proof (induction ts arbitrary: ds store u)
  case Nil
  then show ?case by simp
next
  case (Cons t ts)
  obtain store1 u1 where s1: "updateEntry ops (store, u) t = (store1, u1)"
    by (cases "updateEntry ops (store, u) t")
  have a: "\<forall>d\<in>set (ds @ [t]). agrees ops store1 d"
  proof
    fix d assume "d \<in> set (ds @ [t])"
    then consider "d \<in> set ds" | "d = t" by auto
    then show "agrees ops store1 d"
    proof cases
      case 1
      then show ?thesis
        using updateEntry_keeps_agreement [of ops store d t u] Cons.prems s1 by auto
    next
      case 2
      then show ?thesis
        using updateEntry_agrees [of t ops store u] Cons.prems(1) s1 by auto
    qed
  qed
  have b: "\<forall>t1\<in>set ts. \<forall>t2\<in>set ((ds @ [t]) @ ts). entryChild t1 = None \<or> entryChild t1 \<noteq> entryChild t2 \<or> sameEdge ops t1 t2"
    using Cons.prems(1) by auto
  from Cons.IH [OF b a, of u1] show ?case
    by (simp add: s1)
qed

lemma foldl_updateEntry_unchanged:
  assumes "\<forall>t\<in>set ts. agrees ops store t"
  shows "foldl (updateEntry ops) (store, u) ts = (store, u)"
  using assms
proof (induction ts)
  case Nil
  then show ?case by simp
next
  case (Cons t ts)
  then have "updateEntry ops (store, u) t = (store, u)"
    by (cases "entryChild t") (simp_all add: updateEntry_skipped updateEntry_keyed)
  then show ?case using Cons by simp
qed

lemma consistentBatch_iff:
  "consistentBatch ops ts \<longleftrightarrow>
     (\<forall>t1\<in>set ts. \<forall>t2\<in>set ts. entryChild t1 = None \<or> entryChild t1 \<noteq> entryChild t2 \<or> sameEdge ops t1 t2)"
  by (simp add: consistentBatch_def list_all_iff)

text \<open>
  Claim C6 as stated covers every batch. A batch with two entries for the same child
  \<open>A\<close>, the first under parent \<open>B\<close> and the second under parent \<open>C\<close>, leaves \<open>A \<rightarrow> C\<close>
  in the store; applied again, its first entry finds parent \<open>C\<close> where it brings
  \<open>B\<close>, overwrites the edge, and the second application reports a change.
\<close>

theorem same_batch_twice_reports_change:
  "snd (update three_real (fst (update three_real emptyStore duplicateChildMessage False))
          duplicateChildMessage False) = True"
  by (simp add: update_def emptyStore_def duplicateChildMessage_def updateEntry_def
        composeMatrix_translated Let_def update_conv')


text \<open>
  Claim C6, as amended. Let a batch be such that any two of its entries filed under the
  same child frame (an entry and itself included) carry the same normalized parent and
  matrices that \<open>matricesDiffer\<close> does not tell apart. Then, for every store state
  and either value of \<open>isStatic\<close>, applying \<open>update\<close> with that batch a second time
  right after the first returns \<open>changed = false\<close> and leaves the store as the first
  application left it.
\<close>

theorem update_twice_reports_no_change:
  assumes "consistentBatch ops (orElse (transforms message) [])"
  shows "update ops (fst (update ops st message isStatic)) message isStatic =
           (fst (update ops st message isStatic), False)"
proof -
  let ?ts = "orElse (transforms message) []"
  let ?store = "if isStatic then staticTransforms st else dynamicTransforms st"
  let ?store1 = "fst (foldl (updateEntry ops) (?store, False) ?ts)"
  have c: "\<forall>t1\<in>set ?ts. \<forall>t2\<in>set ([] @ ?ts). entryChild t1 = None \<or> entryChild t1 \<noteq> entryChild t2 \<or> sameEdge ops t1 t2"
    using assms by (simp add: consistentBatch_iff)
  have "\<forall>d\<in>set ([] @ ?ts). agrees ops ?store1 d"
    by (rule foldl_updateEntry_agrees [OF c]) simp
  then have "foldl (updateEntry ops) (?store1, False) ?ts = (?store1, False)"
    by (intro foldl_updateEntry_unchanged) simp
  then show ?thesis
    by (cases isStatic) (simp_all add: update_def Let_def)
qed


theorem update_twice_reports_no_change_witness:
  "consistentBatch three_real (orElse (transforms scenarioMessage) []) \<and>
   update three_real scenarioStore scenarioMessage False = (scenarioStore, False)"
  using update_twice_reports_no_change [OF scenario_consistent, of emptyStore False] scenario_consistent
  by (simp add: scenarioStore_def)

subsection \<open>resetDynamic\<close>

text \<open>
  Claim C8. \<open>resetDynamic\<close> clears every dynamic edge and leaves every static edge
  unchanged: afterwards the dynamic map is empty and the static map is exactly what it
  was before the call.
\<close>

theorem resetDynamic_clears_dynamic_only:
  "dynamicTransforms (resetDynamic st) = [] \<and>
   staticTransforms (resetDynamic st) = staticTransforms st"
  by (simp add: resetDynamic_def)

end
